theory Spec2Isabelle
  imports Complex_Main "HOL-Library.Word"
begin

unbundle bit_operations_syntax

section \<open>APDS-9960 ambient light sensor driver (apds9960.js)\<close>

text \<open>
  The driver is a JavaScript class with private mutable fields, talking to an injected
  transport object (\<open>options.sensor.io\<close>) and an optional alert pin. The model is a
  state-passing embedding: every method takes the driver state and returns its completion
  (normal or thrown) together with the state it leaves behind, because a JavaScript
  exception does not undo the assignments made before it.

  Option values are typed: the two switches are booleans, every numeric option is an
  integer, and \<open>None\<close> is JavaScript's \<open>undefined\<close> (the option is absent).
\<close>

subsection \<open>Register map\<close>

definition AILTL :: nat where "AILTL = 0x84"
definition AIHTL :: nat where "AIHTL = 0x86"
definition PERS :: nat where "PERS = 0x8C"
definition ENABLE :: nat where "ENABLE = 0x80"
definition ATIME :: nat where "ATIME = 0x81"
definition WTIME :: nat where "WTIME = 0x83"
definition CONTROLONE :: nat where "CONTROLONE = 0x8F"
definition ID :: nat where "ID = 0x92"
definition STATUS :: nat where "STATUS = 0x93"
definition CDATAL :: nat where "CDATAL = 0x94"
definition CDATAH :: nat where "CDATAH = 0x95"

subsection \<open>The transport and the alert pin\<close>

text \<open>
  The transport and the pin are not part of the driver: they are taken as a parameter.
  A \<open>bus\<close> records every transaction the driver issues, in order, and fixes how the
  outside answers: whether a transaction throws, which byte a register read returns and
  which bytes a burst read delivers. Each answer may depend on the whole history, the
  transaction being answered included (it is the last element). A transaction that
  throws was issued and is recorded as well.
\<close>

datatype event =
    WriteUint8 nat int
  | WriteUint16 nat int
  | ReadUint8 nat
  | ReadBuffer nat nat
  | CloseIO
  | CloseMonitor

record bus =
  transactions :: "event list"
  faults :: "event list \<Rightarrow> bool"
  byte :: "event list \<Rightarrow> 8 word"
  block :: "event list \<Rightarrow> nat \<Rightarrow> 8 word"

subsection \<open>Driver state\<close>

record enabled_flags =
  GEN :: bool
  PIEN :: bool
  AIEN :: bool
  WEN :: bool
  PEN :: bool
  AEN :: bool
  PON :: bool

text \<open>
  The four threshold and persistence entries are not in the object literal that
  initialises \<open>#configuration\<close>; they are \<open>undefined\<close> (\<open>None\<close>) until configure
  stores them.
\<close>

record config =
  enabled :: enabled_flags
  alsIntegrationCycles :: int
  alsGain :: int
  proximityGain :: int
  alsThresholdLow :: "int option"
  alsThresholdHigh :: "int option"
  alsThresholdPersistence :: "int option"
  proximityThresholdPersistence :: "int option"

text \<open>
  \<open>io\<close> and \<open>monitor\<close> say whether \<open>#io\<close> and \<open>#monitor\<close> hold an object or
  \<open>undefined\<close>; \<open>bus\<close> is the outside world those objects talk to, which stays
  observable after the driver has dropped its references.
\<close>

record sensor =
  io :: bool
  monitor :: bool
  alsBlock :: "8 word list"
  maxCount :: int
  configuration :: config
  bus :: bus

record options =
  opt_enableALS :: "bool option"
  opt_on :: "bool option"
  opt_alsIntegrationCycles :: "int option"
  opt_alsGain :: "int option"
  opt_proximityGain :: "int option"
  opt_alsThresholdHigh :: "int option"
  opt_alsThresholdLow :: "int option"
  opt_alsThresholdPersistence :: "int option"
  opt_proximityThresholdPersistence :: "int option"

definition no_options :: options where
  "no_options = \<lparr>opt_enableALS = None, opt_on = None, opt_alsIntegrationCycles = None,
     opt_alsGain = None, opt_proximityGain = None, opt_alsThresholdHigh = None,
     opt_alsThresholdLow = None, opt_alsThresholdPersistence = None,
     opt_proximityThresholdPersistence = None\<rparr>"

text \<open>
  What a method can throw: \<open>Error\<close> and \<open>RangeError\<close> with the message of the source,
  the \<open>TypeError\<close> of calling a method on \<open>undefined\<close> (a closed \<open>#io\<close>), and a
  fault raised by the transport itself.
\<close>

datatype error = Error string | RangeError string | TypeError | TransportFault

type_synonym 'a completion = "(error + 'a) \<times> sensor"

definition andThen ::
  "(sensor \<Rightarrow> unit completion) \<Rightarrow> (sensor \<Rightarrow> 'a completion) \<Rightarrow> sensor \<Rightarrow> 'a completion" where
  "andThen f g s = (case f s of (Inl e, s') \<Rightarrow> (Inl e, s') | (Inr _, s') \<Rightarrow> g s')"

subsection \<open>Transport operations\<close>

definition transact :: "event \<Rightarrow> sensor \<Rightarrow> unit completion" where
  "transact ev s =
     (let b = bus s;
          t = transactions b @ [ev];
          s' = s\<lparr>bus := b\<lparr>transactions := t\<rparr>\<rparr>
      in (if faults b t then Inl TransportFault else Inr (), s'))"

definition writeUint8 :: "nat \<Rightarrow> int \<Rightarrow> sensor \<Rightarrow> unit completion" where
  "writeUint8 reg v s = (if io s then transact (WriteUint8 reg v) s else (Inl TypeError, s))"

definition writeUint16 :: "nat \<Rightarrow> int \<Rightarrow> sensor \<Rightarrow> unit completion" where
  "writeUint16 reg v s = (if io s then transact (WriteUint16 reg v) s else (Inl TypeError, s))"

definition readUint8 :: "nat \<Rightarrow> sensor \<Rightarrow> (8 word) completion" where
  "readUint8 reg s =
     (if io s then
        (case transact (ReadUint8 reg) s of
           (Inl e, s') \<Rightarrow> (Inl e, s')
         | (Inr _, s') \<Rightarrow> (Inr (byte (bus s') (transactions (bus s'))), s'))
      else (Inl TypeError, s))"

text \<open>\<open>readBuffer(register, this.#alsBlock)\<close> fills the eight bytes of the buffer.\<close>

definition readBuffer :: "nat \<Rightarrow> sensor \<Rightarrow> unit completion" where
  "readBuffer reg s =
     (if io s then
        (case transact (ReadBuffer reg 8) s of
           (Inl e, s') \<Rightarrow> (Inl e, s')
         | (Inr _, s') \<Rightarrow>
             (Inr (), s'\<lparr>alsBlock := map (block (bus s') (transactions (bus s'))) [0..<8]\<rparr>))
      else (Inl TypeError, s))"

subsection \<open>JavaScript's 32-bit bitwise operators\<close>

definition js_or :: "int \<Rightarrow> int \<Rightarrow> int" where
  "js_or a b = sint ((word_of_int a :: 32 word) OR word_of_int b)"

definition js_shl :: "int \<Rightarrow> nat \<Rightarrow> int" where
  "js_shl a n = sint (push_bit n (word_of_int a :: 32 word))"

subsection \<open>apersFromCycles\<close>

text \<open>
  \<open>None\<close> is the bare \<open>return;\<close>. On an integer that reaches the last line,
  \<open>cycles % 5\<close> is zero, so \<open>cycles / 5\<close> is the exact integer quotient.
\<close>

definition apersFromCycles :: "int \<Rightarrow> int option" where
  "apersFromCycles cycles =
     (if cycles < 0 \<or> cycles > 60 then None
      else if cycles > 3 \<and> cycles mod 5 \<noteq> 0 then None
      else if cycles \<le> 3 then Some cycles
      else Some (cycles div 5 + 3))"

subsection \<open>configure\<close>

text \<open>
  The body of configure is a sequence of blocks, each guarded by the presence of the
  options it handles. Each block is one definition below, in the order of the source; a
  throw inside a block ends the call and keeps the state reached so far.
\<close>

text \<open>Lines 128 to 134: the two switches are stored as given.\<close>

definition configure_switches :: "options \<Rightarrow> sensor \<Rightarrow> sensor" where
  "configure_switches opts s =
     (let c = configuration s;
          e0 = enabled c;
          e1 = (case opt_enableALS opts of None \<Rightarrow> e0 | Some v \<Rightarrow> e0\<lparr>AEN := v\<rparr>);
          e2 = (case opt_on opts of None \<Rightarrow> e1 | Some v \<Rightarrow> e1\<lparr>PON := v\<rparr>)
      in s\<lparr>configuration := c\<lparr>enabled := e2\<rparr>\<rparr>)"

text \<open>The two switch statements; \<open>None\<close> is the default branch, which throws.\<close>

definition alsGainField :: "int \<Rightarrow> int option" where
  "alsGainField g =
     (if g = 1 then Some 0 else if g = 4 then Some 1
      else if g = 16 then Some 2 else if g = 64 then Some 3 else None)"

definition proximityGainField :: "int \<Rightarrow> int option" where
  "proximityGainField g =
     (if g = 1 then Some 0 else if g = 2 then Some 4
      else if g = 4 then Some 8 else if g = 8 then Some 12 else None)"

text \<open>
  Lines 136 to 185: both gains are stored first, then the stored values are encoded and
  packed into one byte.
\<close>

definition configure_gain :: "options \<Rightarrow> sensor \<Rightarrow> unit completion" where
  "configure_gain opts s =
     (let c0 = configuration s;
          c1 = (case opt_alsGain opts of None \<Rightarrow> c0 | Some g \<Rightarrow> c0\<lparr>alsGain := g\<rparr>);
          c2 = (case opt_proximityGain opts of None \<Rightarrow> c1 | Some g \<Rightarrow> c1\<lparr>proximityGain := g\<rparr>);
          s' = s\<lparr>configuration := c2\<rparr>
      in if opt_alsGain opts \<noteq> None \<or> opt_proximityGain opts \<noteq> None then
           (case alsGainField (alsGain c2) of
              None \<Rightarrow> (Inl (Error ''invalid alsGain setting''), s')
            | Some a \<Rightarrow>
                (case proximityGainField (proximityGain c2) of
                   None \<Rightarrow> (Inl (Error ''invalid proximityGain setting''), s')
                 | Some p \<Rightarrow> writeUint8 CONTROLONE (js_or (js_or 0 a) p) s'))
         else (Inr (), s'))"

text \<open>Lines 187 to 195.\<close>

definition configure_integration :: "options \<Rightarrow> sensor \<Rightarrow> unit completion" where
  "configure_integration opts s =
     (case opt_alsIntegrationCycles opts of
        None \<Rightarrow> (Inr (), s)
      | Some c \<Rightarrow>
          if c > 256 \<or> c < 0 then (Inl (Error ''invalid alsIntegrationCycles setting''), s)
          else writeUint8 ATIME (256 - c)
                 (s\<lparr>configuration := (configuration s)\<lparr>alsIntegrationCycles := c\<rparr>,
                    maxCount := 1025 * c\<rparr>))"

text \<open>Lines 199 to 211.\<close>

definition configure_thresholdLow :: "options \<Rightarrow> sensor \<Rightarrow> unit completion" where
  "configure_thresholdLow opts s =
     (case opt_alsThresholdLow opts of
        None \<Rightarrow> (Inr (), s)
      | Some v \<Rightarrow>
          if v < 0 \<or> v > 0xFFFF then (Inl (RangeError ''invalid alsThresholdLow''), s)
          else writeUint16 AILTL v
                 (s\<lparr>configuration := (configuration s)\<lparr>alsThresholdLow := Some v\<rparr>\<rparr>))"

definition configure_thresholdHigh :: "options \<Rightarrow> sensor \<Rightarrow> unit completion" where
  "configure_thresholdHigh opts s =
     (case opt_alsThresholdHigh opts of
        None \<Rightarrow> (Inr (), s)
      | Some v \<Rightarrow>
          if v < 0 \<or> v > 0xFFFF then (Inl (RangeError ''invalid thresholdHigh''), s)
          else writeUint16 AIHTL v
                 (s\<lparr>configuration := (configuration s)\<lparr>alsThresholdHigh := Some v\<rparr>\<rparr>))"

text \<open>
  The bitwise operators read \<open>undefined\<close> and \<open>NaN\<close> as 0. That is what reaches them
  when a stored persistence is still \<open>undefined\<close>: \<open>undefined << 4\<close> is 0, and
  \<open>apersFromCycles(undefined)\<close> fails every comparison and returns
  \<open>undefined / 5 + 3\<close>, which is \<open>NaN\<close>.
\<close>

definition orZero :: "int option \<Rightarrow> int" where
  "orZero v = (case v of None \<Rightarrow> 0 | Some n \<Rightarrow> n)"

text \<open>Lines 213 to 232.\<close>

definition configure_persistence :: "options \<Rightarrow> sensor \<Rightarrow> unit completion" where
  "configure_persistence opts s =
     (if opt_proximityThresholdPersistence opts \<noteq> None \<or> opt_alsThresholdPersistence opts \<noteq> None then
        (case (case opt_alsThresholdPersistence opts of
                 Some p \<Rightarrow>
                   (case apersFromCycles p of
                      None \<Rightarrow> (Inl (RangeError ''invalid alsThresholdPersistence''), s)
                    | Some a \<Rightarrow>
                        (Inr a, s\<lparr>configuration := (configuration s)\<lparr>alsThresholdPersistence := Some p\<rparr>\<rparr>))
               | None \<Rightarrow>
                   (Inr (orZero (Option.bind (alsThresholdPersistence (configuration s)) apersFromCycles)), s)) of
           (Inl e, s1) \<Rightarrow> (Inl e, s1)
         | (Inr APERS, s1) \<Rightarrow>
             (case (case opt_proximityThresholdPersistence opts of
                      Some q \<Rightarrow>
                        if q < 0 \<or> q > 15 then (Inl (RangeError ''invalid proximityThresholdPersistence''), s1)
                        else (Inr (), s1\<lparr>configuration := (configuration s1)\<lparr>proximityThresholdPersistence := Some q\<rparr>\<rparr>)
                    | None \<Rightarrow> (Inr (), s1)) of
                (Inl e, s2) \<Rightarrow> (Inl e, s2)
              | (Inr _, s2) \<Rightarrow>
                  writeUint8 PERS
                    (js_or (js_shl (orZero (proximityThresholdPersistence (configuration s2))) 4) APERS) s2))
      else (Inr (), s))"

text \<open>Lines 234 to 241; the read of 0xE7 clears the interrupts and its value is dropped.\<close>

definition configure_interrupt :: "options \<Rightarrow> sensor \<Rightarrow> unit completion" where
  "configure_interrupt opts s =
     (if opt_alsThresholdLow opts \<noteq> None \<or> opt_alsThresholdHigh opts \<noteq> None then
        (let c = configuration s;
             a = \<not> (alsThresholdHigh c = Some 0xFFFF \<and> alsThresholdLow c = Some 0);
             s' = s\<lparr>configuration := c\<lparr>enabled := (enabled c)\<lparr>AIEN := a\<rparr>\<rparr>\<rparr>
         in case readUint8 0xE7 s' of
              (Inl e, s'') \<Rightarrow> (Inl e, s'')
            | (Inr _, s'') \<Rightarrow> (Inr (), s''))
      else (Inr (), s))"

text \<open>Lines 243 to 268.\<close>

definition enableByte :: "enabled_flags \<Rightarrow> int" where
  "enableByte en =
     (let e0 = 0;
          e1 = (if GEN en then js_or e0 0x40 else e0);
          e2 = (if PIEN en then js_or e1 0x20 else e1);
          e3 = (if AIEN en then js_or e2 0x10 else e2);
          e4 = (if WEN en then js_or e3 0x08 else e3);
          e5 = (if PEN en then js_or e4 0x04 else e4);
          e6 = (if AEN en then js_or e5 0x02 else e5);
          e7 = (if PON en then js_or e6 0x01 else e6)
      in e7)"

definition configure_enable :: "options \<Rightarrow> sensor \<Rightarrow> unit completion" where
  "configure_enable opts s =
     (if opt_on opts \<noteq> None \<or> opt_enableALS opts \<noteq> None
         \<or> opt_alsThresholdLow opts \<noteq> None \<or> opt_alsThresholdHigh opts \<noteq> None then
        writeUint8 ENABLE (enableByte (enabled (configuration s))) s
      else (Inr (), s))"

definition configure :: "options \<Rightarrow> sensor \<Rightarrow> unit completion" where
  "configure opts s =
     andThen (configure_gain opts)
       (andThen (configure_integration opts)
         (andThen (configure_thresholdLow opts)
           (andThen (configure_thresholdHigh opts)
             (andThen (configure_persistence opts)
               (andThen (configure_interrupt opts)
                 (configure_enable opts))))))
       (configure_switches opts s)"

text \<open>
  Two initial segments of the same body, named for the statements about where a call
  throws: the blocks of lines 128 to 211 (switches, gains, integration cycles, the two
  threshold bounds), and those of lines 128 to 232 (the same, then the persistence
  block).
\<close>

definition before_persistence :: "options \<Rightarrow> sensor \<Rightarrow> unit completion" where
  "before_persistence opts s =
     andThen (configure_gain opts)
       (andThen (configure_integration opts)
         (andThen (configure_thresholdLow opts)
           (configure_thresholdHigh opts)))
       (configure_switches opts s)"

definition before_interrupt :: "options \<Rightarrow> sensor \<Rightarrow> unit completion" where
  "before_interrupt opts s = andThen (before_persistence opts) (configure_persistence opts) s"

text \<open>The accessor returns a copy of the mirror.\<close>

definition get_configuration :: "sensor \<Rightarrow> config" where
  "get_configuration s = configuration s"

subsection \<open>sample\<close>

text \<open>
  A JavaScript number as far as sample produces one. \<open>Quotient raw m\<close> stands for the
  value of \<open>raw / m\<close> with a nonzero \<open>m\<close>, which is the double nearest to the
  quotient; the rounding is not computed, the value is named by its two operands. A
  positive count divided by zero is \<open>Infinity\<close>, and 0 / 0 is \<open>NaN\<close>.
\<close>

datatype number = Quotient nat int | Infinity | NaN

definition js_div :: "nat \<Rightarrow> int \<Rightarrow> number" where
  "js_div raw m =
     (if m = 0 then (if raw = 0 then NaN else Infinity)
      else Quotient raw m)"

text \<open>
  Whether a number lies in [0, 1]. \<open>Infinity\<close> and \<open>NaN\<close> do not. A quotient is
  decided on its operands: rounding to the nearest double is monotone and keeps 0 and 1,
  and a count above a positive ceiling exceeds it by far more than the rounding error, so
  the double lies in [0, 1] exactly when the exact quotient does.
\<close>

definition in_unit_interval :: "number \<Rightarrow> bool" where
  "in_unit_interval x =
     (case x of
        Quotient raw m \<Rightarrow> raw = 0 \<or> (0 < m \<and> int raw \<le> m)
      | Infinity \<Rightarrow> False
      | NaN \<Rightarrow> False)"

text \<open>\<open>DataView.getUint16(offset, true)\<close> on the eight-byte block: little-endian.\<close>

definition getUint16 :: "8 word list \<Rightarrow> nat \<Rightarrow> nat" where
  "getUint16 b off = unat (b ! off) + 256 * unat (b ! (off + 1))"

record lightmeter =
  clear :: number
  red :: number
  green :: number
  blue :: number

text \<open>
  sample returns \<open>undefined\<close>, or an object whose only possible property is
  \<open>lightmeter\<close>. The \<open>trace\<close> call writes to the debug console and is left out.
\<close>

datatype sample_result = Undefined | Object "lightmeter option"

definition sample :: "sensor \<Rightarrow> sample_result completion" where
  "sample s =
     (if \<not> PON (enabled (configuration s)) then (Inr Undefined, s)
      else
        (case readUint8 STATUS s of
           (Inl e, s1) \<Rightarrow> (Inl e, s1)
         | (Inr status, s1) \<Rightarrow>
             if AEN (enabled (configuration s1)) \<and> status AND 0x01 \<noteq> 0 then
               (case readBuffer CDATAL s1 of
                  (Inl e, s2) \<Rightarrow> (Inl e, s2)
                | (Inr _, s2) \<Rightarrow>
                    (Inr (Object (Some
                       \<lparr>clear = js_div (getUint16 (alsBlock s2) 0) (maxCount s2),
                        red = js_div (getUint16 (alsBlock s2) 2) (maxCount s2),
                        green = js_div (getUint16 (alsBlock s2) 4) (maxCount s2),
                        blue = js_div (getUint16 (alsBlock s2) 6) (maxCount s2)\<rparr>)), s2))
             else (Inr (Object None), s1)))"

subsection \<open>close\<close>

definition close :: "sensor \<Rightarrow> unit completion" where
  "close s =
     andThen
       (\<lambda>s. if io s then andThen (writeUint8 ENABLE 0x00) (transact CloseIO) s else (Inr (), s))
       (andThen
         (\<lambda>s. if monitor s then transact CloseMonitor s else (Inr (), s))
         (\<lambda>s. (Inr (), s\<lparr>monitor := False, io := False\<rparr>)))
       s"

subsection \<open>The constructor\<close>

text \<open>The field initialisers of the class.\<close>

definition initial_configuration :: config where
  "initial_configuration =
     \<lparr>enabled = \<lparr>GEN = False, PIEN = False, AIEN = False, WEN = False,
                 PEN = False, AEN = False, PON = False\<rparr>,
      alsIntegrationCycles = 1, alsGain = 1, proximityGain = 1,
      alsThresholdLow = None, alsThresholdHigh = None,
      alsThresholdPersistence = None, proximityThresholdPersistence = None\<rparr>"

definition default_options :: options where
  "default_options =
     \<lparr>opt_enableALS = Some True, opt_on = Some True, opt_alsIntegrationCycles = Some 10,
      opt_alsGain = Some 1, opt_proximityGain = None, opt_alsThresholdHigh = Some 0xFFFF,
      opt_alsThresholdLow = Some 0, opt_alsThresholdPersistence = Some 1,
      opt_proximityThresholdPersistence = Some 1\<rparr>"

text \<open>
  A \<open>catch\<close> block of the constructor: close the driver, then throw the given error
  (unless close itself throws).
\<close>

definition closeAndThrow :: "error \<Rightarrow> sensor \<Rightarrow> unit completion" where
  "closeAndThrow e s = andThen close (\<lambda>s'. (Inl e, s')) s"

text \<open>
  \<open>alert\<close> says whether both an alert pin and an \<open>onAlert\<close> callback were supplied.
  Creating the transport and the pin objects is taken to succeed.
\<close>

definition constructor :: "bool \<Rightarrow> bus \<Rightarrow> unit completion" where
  "constructor alert b =
     (let s0 = \<lparr>io = True, monitor = False, alsBlock = [], maxCount = 1025,
                configuration = initial_configuration, bus = b\<rparr>
      in case andThen (writeUint8 ENABLE 0x00) (writeUint8 ENABLE 0x01) s0 of
           (Inl _, s1) \<Rightarrow> closeAndThrow (Error ''reset failed'') s1
         | (Inr _, s1) \<Rightarrow>
             (case readUint8 ID s1 of
                (Inl _, s2) \<Rightarrow> closeAndThrow (Error ''i2c error during id check'') s2
              | (Inr ident, s2) \<Rightarrow>
                  if ident \<noteq> 0xAB then closeAndThrow (Error ''unexpected sensor ID'') s2
                  else configure default_options
                         (s2\<lparr>monitor := alert, alsBlock := replicate 8 0\<rparr>)))"

subsection \<open>Observing a call\<close>

text \<open>
  The transactions a call issued are those the bus holds beyond the ones it held before;
  \<open>writesTo reg\<close> says that a transaction writes register \<open>reg\<close> (a 16-bit write
  covers two addresses).
\<close>

definition issued :: "sensor \<Rightarrow> sensor \<Rightarrow> event list" where
  "issued s s' = drop (length (transactions (bus s))) (transactions (bus s'))"

definition writesTo :: "nat \<Rightarrow> event \<Rightarrow> bool" where
  "writesTo reg ev =
     (case ev of
        WriteUint8 r _ \<Rightarrow> r = reg
      | WriteUint16 r _ \<Rightarrow> r = reg \<or> r + 1 = reg
      | _ \<Rightarrow> False)"

text \<open>
  \<open>emits P s s'\<close>: from \<open>s\<close> to \<open>s'\<close> the bus only gained transactions, and each
  of them satisfies \<open>P\<close>.
\<close>

definition emits :: "(event \<Rightarrow> bool) \<Rightarrow> sensor \<Rightarrow> sensor \<Rightarrow> bool" where
  "emits P s s' = (\<exists>evs. transactions (bus s') = transactions (bus s) @ evs \<and> list_all P evs)"

subsection \<open>Example buses and states\<close>

text \<open>
  A transport that never faults, answers every register read with 0xAB (the identity of
  the chip; its bit 0 is set) and delivers the given eight bytes on a burst read.
\<close>

definition lab_bus :: "8 word list \<Rightarrow> bus" where
  "lab_bus d = \<lparr>transactions = [], faults = (\<lambda>_. False), byte = (\<lambda>_. 0xAB),
                 block = (\<lambda>_ i. d ! i)\<rparr>"

text \<open>Counts 0x1234, 0x0100, 0x0200, 0x0300; a block of saturated bytes; a block of zeros.\<close>

definition dusk :: "8 word list" where
  "dusk = [0x34, 0x12, 0x00, 0x01, 0x00, 0x02, 0x00, 0x03]"

definition glare :: "8 word list" where
  "glare = [0xFF, 0xFF, 0xFF, 0xFF, 0xFF, 0xFF, 0xFF, 0xFF]"

definition dark :: "8 word list" where
  "dark = [0, 0, 0, 0, 0, 0, 0, 0]"

text \<open>The driver as the constructor leaves it on such a bus, without an alert pin.\<close>

definition ready :: "8 word list \<Rightarrow> sensor" where
  "ready d =
     \<lparr>io = True, monitor = False, alsBlock = [0, 0, 0, 0, 0, 0, 0, 0], maxCount = 10250,
      configuration =
        \<lparr>enabled = \<lparr>GEN = False, PIEN = False, AIEN = False, WEN = False,
                    PEN = False, AEN = True, PON = True\<rparr>,
         alsIntegrationCycles = 10, alsGain = 1, proximityGain = 1,
         alsThresholdLow = Some 0, alsThresholdHigh = Some 65535,
         alsThresholdPersistence = Some 1, proximityThresholdPersistence = Some 1\<rparr>,
      bus = (lab_bus d)\<lparr>transactions :=
        [WriteUint8 128 0, WriteUint8 128 1, ReadUint8 146, WriteUint8 143 0,
         WriteUint8 129 246, WriteUint16 132 0, WriteUint16 134 65535,
         WriteUint8 140 17, ReadUint8 231, WriteUint8 128 3]\<rparr>\<rparr>"

text \<open>
  A transport that behaves like \<open>lab_bus\<close> during construction (ten transactions)
  and afterwards faults on every write to ENABLE, and the driver as the constructor
  leaves it on that transport.
\<close>

definition worn_bus :: "8 word list \<Rightarrow> bus" where
  "worn_bus d = (lab_bus d)\<lparr>faults := (\<lambda>t. 10 < length t \<and> writesTo ENABLE (last t))\<rparr>"

definition worn :: "8 word list \<Rightarrow> sensor" where
  "worn d = (ready d)\<lparr>bus := (bus (ready d))\<lparr>faults := faults (worn_bus d)\<rparr>\<rparr>"

text \<open>The same driver after \<open>configure({on: false})\<close>.\<close>

definition standby :: "8 word list \<Rightarrow> sensor" where
  "standby d = snd (configure (no_options\<lparr>opt_on := Some False\<rparr>) (ready d))"

text \<open>
  What configure may leave untouched, in two predicates used by the frame lemmas:
  \<open>mirror_kept\<close> relates two states whose mirror agrees on every entry that the
  options leave out, and \<open>permitted\<close> lists the transactions a call with the given
  options can issue at all.
\<close>

definition mirror_kept :: "options \<Rightarrow> sensor \<Rightarrow> sensor \<Rightarrow> bool" where
  "mirror_kept opts s s' =
     (let c = configuration s; c' = configuration s' in
        (opt_enableALS opts = None \<longrightarrow> AEN (enabled c') = AEN (enabled c))
      \<and> (opt_on opts = None \<longrightarrow> PON (enabled c') = PON (enabled c))
      \<and> (opt_alsIntegrationCycles opts = None \<longrightarrow>
            alsIntegrationCycles c' = alsIntegrationCycles c \<and> maxCount s' = maxCount s)
      \<and> (opt_alsGain opts = None \<longrightarrow> alsGain c' = alsGain c)
      \<and> (opt_proximityGain opts = None \<longrightarrow> proximityGain c' = proximityGain c)
      \<and> (opt_alsThresholdLow opts = None \<longrightarrow> alsThresholdLow c' = alsThresholdLow c)
      \<and> (opt_alsThresholdHigh opts = None \<longrightarrow> alsThresholdHigh c' = alsThresholdHigh c)
      \<and> (opt_alsThresholdPersistence opts = None \<longrightarrow>
            alsThresholdPersistence c' = alsThresholdPersistence c)
      \<and> (opt_proximityThresholdPersistence opts = None \<longrightarrow>
            proximityThresholdPersistence c' = proximityThresholdPersistence c))"

definition permitted :: "options \<Rightarrow> event \<Rightarrow> bool" where
  "permitted opts ev =
     (case ev of
        WriteUint8 r _ \<Rightarrow>
          r = CONTROLONE \<and> (opt_alsGain opts \<noteq> None \<or> opt_proximityGain opts \<noteq> None)
        \<or> r = ATIME \<and> opt_alsIntegrationCycles opts \<noteq> None
        \<or> r = PERS \<and> (opt_proximityThresholdPersistence opts \<noteq> None
                       \<or> opt_alsThresholdPersistence opts \<noteq> None)
        \<or> r = ENABLE \<and> (opt_on opts \<noteq> None \<or> opt_enableALS opts \<noteq> None
                         \<or> opt_alsThresholdLow opts \<noteq> None \<or> opt_alsThresholdHigh opts \<noteq> None)
      | WriteUint16 r _ \<Rightarrow>
          r = AILTL \<and> opt_alsThresholdLow opts \<noteq> None
        \<or> r = AIHTL \<and> opt_alsThresholdHigh opts \<noteq> None
      | ReadUint8 r \<Rightarrow>
          r = 0xE7 \<and> (opt_alsThresholdLow opts \<noteq> None \<or> opt_alsThresholdHigh opts \<noteq> None)
      | _ \<Rightarrow> False)"

text \<open>\<open>{alsGain: 4, proximityGain: 8}\<close>\<close>

definition both_gains :: options where
  "both_gains = no_options\<lparr>opt_alsGain := Some 4, opt_proximityGain := Some 8\<rparr>"

text \<open>\<open>{alsThresholdPersistence: p}\<close>\<close>

definition only_persistence :: "int \<Rightarrow> options" where
  "only_persistence p = no_options\<lparr>opt_alsThresholdPersistence := Some p\<rparr>"

text \<open>\<open>{alsThresholdLow: lo, alsThresholdHigh: hi}\<close>, either of them possibly absent.\<close>

definition thresholds :: "int option \<Rightarrow> int option \<Rightarrow> options" where
  "thresholds lo hi = no_options\<lparr>opt_alsThresholdLow := lo, opt_alsThresholdHigh := hi\<rparr>"

text \<open>
  The 16-bit little-endian count that the burst read of sample delivers at byte offset
  \<open>off\<close>, when sample is called in state \<open>s\<close> and reads the status first.
\<close>

definition delivered :: "sensor \<Rightarrow> nat \<Rightarrow> nat" where
  "delivered s off =
     (let t = transactions (bus s) @ [ReadUint8 STATUS, ReadBuffer CDATAL 8]
      in unat (block (bus s) t off) + 256 * unat (block (bus s) t (off + 1)))"

text \<open>\<open>{alsGain: a, proximityGain: p}\<close>, either possibly absent, and \<open>{alsIntegrationCycles: c}\<close>.\<close>

definition gains :: "int option \<Rightarrow> int option \<Rightarrow> options" where
  "gains a p = no_options\<lparr>opt_alsGain := a, opt_proximityGain := p\<rparr>"

definition only_cycles :: "int \<Rightarrow> options" where
  "only_cycles c = no_options\<lparr>opt_alsIntegrationCycles := Some c\<rparr>"

section \<open>Properties\<close>

subsection \<open>Evaluation rules\<close>

lemmas Register_defs =
  AILTL_def AIHTL_def PERS_def ENABLE_def ATIME_def WTIME_def CONTROLONE_def
  ID_def STATUS_def CDATAL_def CDATAH_def

lemmas io_defs = writeUint8_def writeUint16_def readUint8_def readBuffer_def transact_def

lemmas stage_defs =
  configure_switches_def configure_gain_def configure_integration_def
  configure_thresholdLow_def configure_thresholdHigh_def configure_persistence_def
  configure_interrupt_def configure_enable_def

lemmas run_defs =
  configure_def andThen_def stage_defs io_defs Register_defs Let_def
  alsGainField_def proximityGainField_def apersFromCycles_def orZero_def enableByte_def
  js_or_def js_shl_def no_options_def lab_bus_def

lemma replicate_8: "replicate 8 x = [x, x, x, x, x, x, x, x]"
  by (simp add: numeral_eq_Suc)

lemma constructor_ready: "constructor False (lab_bus d) = (Inr (), ready d)"
  by (simp add: constructor_def ready_def default_options_def initial_configuration_def
        replicate_8 run_defs)

lemma constructor_worn: "constructor False (worn_bus d) = (Inr (), worn d)"
  by (simp add: constructor_def worn_def worn_bus_def ready_def default_options_def
        initial_configuration_def replicate_8 writesTo_def run_defs)

lemma standby_eq:
  "standby d =
     (ready d)\<lparr>configuration := (configuration (ready d))
                  \<lparr>enabled := (enabled (configuration (ready d)))\<lparr>PON := False\<rparr>\<rparr>,
               bus := (bus (ready d))
                  \<lparr>transactions := transactions (bus (ready d)) @ [WriteUint8 ENABLE 2]\<rparr>\<rparr>"
  by (simp add: standby_def ready_def run_defs)

subsection \<open>Composing the blocks of configure\<close>

lemma emits_refl: "emits P s s"
  by (simp add: emits_def)

lemma emits_trans: "emits P a b \<Longrightarrow> emits P b c \<Longrightarrow> emits P a c"
  by (auto simp: emits_def)

lemma emits_issued:
  "emits P s s' \<Longrightarrow> transactions (bus s') = transactions (bus s) @ issued s s' \<and> list_all P (issued s s')"
  by (auto simp: emits_def issued_def)

lemma andThen_rel:
  assumes f: "\<And>s. R s (snd (f s))" and g: "\<And>s. R s (snd (g s))"
    and tr: "\<And>a b c. R a b \<Longrightarrow> R b c \<Longrightarrow> R a c"
  shows "R s (snd (andThen f g s))"
proof (cases "f s")
  case (Pair r s1)
  show ?thesis
  proof (cases r)
    case (Inl e)
    with Pair f [of s] show ?thesis by (simp add: andThen_def)
  next
    case (Inr u)
    with Pair have "snd (andThen f g s) = snd (g s1)" by (simp add: andThen_def)
    with f [of s] g [of s1] Pair tr show ?thesis by auto
  qed
qed

lemma snd_transact:
  "snd (transact ev s) = s\<lparr>bus := (bus s)\<lparr>transactions := transactions (bus s) @ [ev]\<rparr>\<rparr>"
  by (simp add: transact_def Let_def)

lemma fst_transact:
  "fst (transact ev s) =
     (if faults (bus s) (transactions (bus s) @ [ev]) then Inl TransportFault else Inr ())"
  by (simp add: transact_def Let_def)

lemma snd_writeUint8:
  "snd (writeUint8 reg v s) =
     (if io s then s\<lparr>bus := (bus s)\<lparr>transactions := transactions (bus s) @ [WriteUint8 reg v]\<rparr>\<rparr>
      else s)"
  by (simp add: writeUint8_def snd_transact)

lemma snd_writeUint16:
  "snd (writeUint16 reg v s) =
     (if io s then s\<lparr>bus := (bus s)\<lparr>transactions := transactions (bus s) @ [WriteUint16 reg v]\<rparr>\<rparr>
      else s)"
  by (simp add: writeUint16_def snd_transact)

lemma snd_readUint8:
  "snd (readUint8 reg s) =
     (if io s then s\<lparr>bus := (bus s)\<lparr>transactions := transactions (bus s) @ [ReadUint8 reg]\<rparr>\<rparr>
      else s)"
  by (simp add: readUint8_def transact_def Let_def)

lemmas snd_io = snd_writeUint8 snd_writeUint16 snd_readUint8

lemma emits_configure_gain:
  assumes "opt_alsGain opts = None \<and> opt_proximityGain opts = None \<or> (\<forall>v. P (WriteUint8 CONTROLONE v))"
  shows "emits P s (snd (configure_gain opts s))"
  using assms
  by (auto simp: configure_gain_def Let_def emits_def snd_io split: option.splits)

lemma emits_configure_integration:
  assumes "opt_alsIntegrationCycles opts = None \<or> (\<forall>v. P (WriteUint8 ATIME v))"
  shows "emits P s (snd (configure_integration opts s))"
  using assms
  by (auto simp: configure_integration_def Let_def emits_def snd_io split: option.splits)

lemma emits_configure_thresholdLow:
  assumes "opt_alsThresholdLow opts = None \<or> (\<forall>v. P (WriteUint16 AILTL v))"
  shows "emits P s (snd (configure_thresholdLow opts s))"
  using assms
  by (auto simp: configure_thresholdLow_def Let_def emits_def snd_io split: option.splits)

lemma emits_configure_thresholdHigh:
  assumes "opt_alsThresholdHigh opts = None \<or> (\<forall>v. P (WriteUint16 AIHTL v))"
  shows "emits P s (snd (configure_thresholdHigh opts s))"
  using assms
  by (auto simp: configure_thresholdHigh_def Let_def emits_def snd_io split: option.splits)

lemma emits_configure_persistence:
  assumes "opt_alsThresholdPersistence opts = None \<and> opt_proximityThresholdPersistence opts = None
           \<or> (\<forall>v. P (WriteUint8 PERS v))"
  shows "emits P s (snd (configure_persistence opts s))"
  using assms
  by (auto simp: configure_persistence_def Let_def emits_def snd_io split: option.splits)

lemma emits_configure_interrupt:
  assumes "opt_alsThresholdLow opts = None \<and> opt_alsThresholdHigh opts = None
           \<or> P (ReadUint8 0xE7)"
  shows "emits P s (snd (configure_interrupt opts s))"
  using assms
  by (auto simp: configure_interrupt_def Let_def emits_def snd_io case_prod_beta
       split: option.splits sum.splits)

lemma emits_configure_enable:
  assumes "opt_on opts = None \<and> opt_enableALS opts = None \<and> opt_alsThresholdLow opts = None
             \<and> opt_alsThresholdHigh opts = None
           \<or> (\<forall>v. P (WriteUint8 ENABLE v))"
  shows "emits P s (snd (configure_enable opts s))"
  using assms
  by (auto simp: configure_enable_def Let_def emits_def snd_io split: option.splits)

lemma configure_rel:
  assumes tr: "\<And>a b c. R a b \<Longrightarrow> R b c \<Longrightarrow> R a c"
    and sw: "\<And>s. R s (configure_switches opts s)"
    and g: "\<And>s. R s (snd (configure_gain opts s))"
    and i: "\<And>s. R s (snd (configure_integration opts s))"
    and l: "\<And>s. R s (snd (configure_thresholdLow opts s))"
    and h: "\<And>s. R s (snd (configure_thresholdHigh opts s))"
    and p: "\<And>s. R s (snd (configure_persistence opts s))"
    and a: "\<And>s. R s (snd (configure_interrupt opts s))"
    and e: "\<And>s. R s (snd (configure_enable opts s))"
  shows "R s (snd (configure opts s))"
proof -
  have 1: "R s' (snd (andThen (configure_interrupt opts) (configure_enable opts) s'))" for s'
    using a e tr by (rule andThen_rel)
  have 2: "R s' (snd (andThen (configure_persistence opts)
      (andThen (configure_interrupt opts) (configure_enable opts)) s'))" for s'
    using p 1 tr by (rule andThen_rel)
  have 3: "R s' (snd (andThen (configure_thresholdHigh opts) (andThen (configure_persistence opts)
      (andThen (configure_interrupt opts) (configure_enable opts))) s'))" for s'
    using h 2 tr by (rule andThen_rel)
  have 4: "R s' (snd (andThen (configure_thresholdLow opts) (andThen (configure_thresholdHigh opts)
      (andThen (configure_persistence opts)
      (andThen (configure_interrupt opts) (configure_enable opts)))) s'))" for s'
    using l 3 tr by (rule andThen_rel)
  have 5: "R s' (snd (andThen (configure_integration opts) (andThen (configure_thresholdLow opts)
      (andThen (configure_thresholdHigh opts) (andThen (configure_persistence opts)
      (andThen (configure_interrupt opts) (configure_enable opts))))) s'))" for s'
    using i 4 tr by (rule andThen_rel)
  have 6: "R s' (snd (andThen (configure_gain opts) (andThen (configure_integration opts)
      (andThen (configure_thresholdLow opts)
      (andThen (configure_thresholdHigh opts) (andThen (configure_persistence opts)
      (andThen (configure_interrupt opts) (configure_enable opts)))))) s'))" for s'
    using g 5 tr by (rule andThen_rel)
  show ?thesis
    unfolding configure_def by (rule tr [OF sw 6])
qed

lemma emits_configure_switches: "emits P s (configure_switches opts s)"
  by (simp add: emits_def configure_switches_def Let_def)

lemma configure_emits_permitted: "emits (permitted opts) s (snd (configure opts s))"
proof (rule configure_rel [where R = "emits (permitted opts)"])
  show "emits (permitted opts) s (snd (configure_gain opts s))" for s
    by (rule emits_configure_gain) (auto simp: permitted_def)
  show "emits (permitted opts) s (snd (configure_integration opts s))" for s
    by (rule emits_configure_integration) (auto simp: permitted_def)
  show "emits (permitted opts) s (snd (configure_thresholdLow opts s))" for s
    by (rule emits_configure_thresholdLow) (auto simp: permitted_def)
  show "emits (permitted opts) s (snd (configure_thresholdHigh opts s))" for s
    by (rule emits_configure_thresholdHigh) (auto simp: permitted_def)
  show "emits (permitted opts) s (snd (configure_persistence opts s))" for s
    by (rule emits_configure_persistence) (auto simp: permitted_def)
  show "emits (permitted opts) s (snd (configure_interrupt opts s))" for s
    by (rule emits_configure_interrupt) (auto simp: permitted_def)
  show "emits (permitted opts) s (snd (configure_enable opts s))" for s
    by (rule emits_configure_enable) (auto simp: permitted_def)
qed (auto intro: emits_trans emits_configure_switches)

lemma mirror_kept_trans: "mirror_kept opts a b \<Longrightarrow> mirror_kept opts b c \<Longrightarrow> mirror_kept opts a c"
  by (simp add: mirror_kept_def Let_def)

lemma configure_mirror_kept: "mirror_kept opts s (snd (configure opts s))"
proof (rule configure_rel [where R = "mirror_kept opts"])
  show "mirror_kept opts s (configure_switches opts s)" for s
    by (auto simp: mirror_kept_def configure_switches_def Let_def split: option.splits)
  show "mirror_kept opts s (snd (configure_gain opts s))" for s
    by (auto simp: mirror_kept_def configure_gain_def Let_def snd_io split: option.splits)
  show "mirror_kept opts s (snd (configure_integration opts s))" for s
    by (auto simp: mirror_kept_def configure_integration_def Let_def snd_io split: option.splits)
  show "mirror_kept opts s (snd (configure_thresholdLow opts s))" for s
    by (auto simp: mirror_kept_def configure_thresholdLow_def Let_def snd_io split: option.splits)
  show "mirror_kept opts s (snd (configure_thresholdHigh opts s))" for s
    by (auto simp: mirror_kept_def configure_thresholdHigh_def Let_def snd_io split: option.splits)
  show "mirror_kept opts s (snd (configure_persistence opts s))" for s
    by (auto simp: mirror_kept_def configure_persistence_def Let_def snd_io split: option.splits)
  show "mirror_kept opts s (snd (configure_interrupt opts s))" for s
    by (auto simp: mirror_kept_def configure_interrupt_def Let_def snd_io case_prod_beta
         split: option.splits sum.splits)
  show "mirror_kept opts s (snd (configure_enable opts s))" for s
    by (auto simp: mirror_kept_def configure_enable_def Let_def snd_io split: option.splits)
qed (rule mirror_kept_trans)


lemma andThen_Inr:
  "andThen f g s = (Inr x, s') \<longleftrightarrow> (\<exists>s1. f s = (Inr (), s1) \<and> g s1 = (Inr x, s'))"
  by (auto simp: andThen_def split: prod.splits sum.splits)

lemma configure_split_persistence:
  "configure opts s =
     andThen (before_persistence opts)
       (andThen (configure_persistence opts)
         (andThen (configure_interrupt opts) (configure_enable opts))) s"
  by (simp add: configure_def before_persistence_def andThen_def split: prod.splits sum.splits)

lemma configure_split_interrupt:
  "configure opts s =
     andThen (before_interrupt opts)
       (andThen (configure_interrupt opts) (configure_enable opts)) s"
  by (simp add: configure_split_persistence before_interrupt_def andThen_def
        split: prod.splits sum.splits)

lemma andThen_Inl: "f s = (Inl e, s1) \<Longrightarrow> andThen f g s = (Inl e, s1)"
  by (simp add: andThen_def)

lemma andThen_Inr_step: "f s = (Inr u, s1) \<Longrightarrow> andThen f g s = g s1"
  by (simp add: andThen_def)


subsection \<open>Sampling a powered-off driver\<close>

text \<open>
  C7: in every driver state whose stored power-on flag PON is false, sample returns
  \<open>undefined\<close>, whatever the bus would answer to a status read.
\<close>

theorem sample_powered_off_undefined:
  "\<not> PON (enabled (configuration s)) \<Longrightarrow> fst (sample s) = Inr Undefined"
  by (simp add: sample_def)

theorem sample_powered_off_undefined_witness:
  "\<not> PON (enabled (configuration (standby glare))) \<and> fst (sample (standby glare)) = Inr Undefined"
proof -
  have off: "\<not> PON (enabled (configuration (standby glare)))"
    by (simp add: standby_eq)
  from off sample_powered_off_undefined [OF off] show ?thesis by blast
qed

text \<open>
  C10: in every driver state whose stored power-on flag PON is false, sample issues no
  bus transaction at all, not even the status read: it leaves the whole state, the bus
  included, as it was.
\<close>

theorem sample_powered_off_silent:
  "\<not> PON (enabled (configuration s)) \<Longrightarrow> snd (sample s) = s \<and> issued s (snd (sample s)) = []"
  by (simp add: sample_def issued_def)

theorem sample_powered_off_silent_witness:
  "\<not> PON (enabled (configuration (standby dusk)))
   \<and> snd (sample (standby dusk)) = standby dusk
   \<and> issued (standby dusk) (snd (sample (standby dusk))) = []"
proof -
  have off: "\<not> PON (enabled (configuration (standby dusk)))"
    by (simp add: standby_eq)
  from off sample_powered_off_silent [OF off] show ?thesis by blast
qed

subsection \<open>close\<close>

lemma close_released: "close s = (Inr (), s') \<Longrightarrow> \<not> io s' \<and> \<not> monitor s'"
  by (auto simp: close_def andThen_def io_defs Let_def split: if_splits sum.splits prod.splits)

text \<open>
  C8: close is idempotent. After a close that returned normally, a second close on the
  same driver returns normally too, issues no bus transaction and changes nothing. The
  first close may start from any state, with or without an alert monitor.
\<close>

theorem close_twice:
  assumes "close s = (Inr (), s')"
  shows "close s' = (Inr (), s') \<and> issued s' (snd (close s')) = []"
proof -
  from assms have "\<not> io s'" "\<not> monitor s'"
    by (simp_all add: close_released)
  then have "close s' = (Inr (), s')"
    by (simp add: close_def andThen_def)
  then show ?thesis by (simp add: issued_def)
qed

theorem close_twice_witness:
  "close (ready dusk) = (Inr (), snd (close (ready dusk)))
   \<and> close (snd (close (ready dusk))) = (Inr (), snd (close (ready dusk)))
   \<and> issued (snd (close (ready dusk))) (snd (close (snd (close (ready dusk))))) = []"
proof -
  have first: "close (ready dusk) = (Inr (), snd (close (ready dusk)))"
    by (simp add: close_def ready_def andThen_def io_defs Let_def lab_bus_def)
  from first close_twice [OF first] show ?thesis by blast
qed

subsection \<open>Gain round trip\<close>

lemma configure_both_gains_succeeds:
  "fst (configure both_gains s) = Inr () \<longleftrightarrow>
     io s \<and> \<not> faults (bus s) (transactions (bus s) @ [WriteUint8 CONTROLONE 13])"
  by (simp add: both_gains_def run_defs)

text \<open>
  C9: when \<open>configure({alsGain: 4, proximityGain: 8})\<close> returns normally, the
  configuration accessor reports alsGain 4 and proximityGain 8, and the call issued
  exactly one transaction: the write of 13 (binary 1101: ALS code 01 in bits 0 and 1,
  proximity code 11 in bits 2 and 3) to CONTROLONE.
\<close>

theorem configure_gain_round_trip:
  assumes "configure both_gains s = (Inr (), s')"
  shows "alsGain (get_configuration s') = 4 \<and> proximityGain (get_configuration s') = 8
         \<and> issued s s' = [WriteUint8 CONTROLONE 13]"
  using assms
  by (auto simp: both_gains_def get_configuration_def issued_def run_defs split: if_splits)

theorem configure_gain_round_trip_witness:
  "configure both_gains (ready dusk) = (Inr (), snd (configure both_gains (ready dusk)))
   \<and> alsGain (get_configuration (snd (configure both_gains (ready dusk)))) = 4
   \<and> proximityGain (get_configuration (snd (configure both_gains (ready dusk)))) = 8
   \<and> issued (ready dusk) (snd (configure both_gains (ready dusk))) = [WriteUint8 CONTROLONE 13]"
proof -
  have ok: "configure both_gains (ready dusk) = (Inr (), snd (configure both_gains (ready dusk)))"
    by (simp add: both_gains_def ready_def run_defs)
  from ok configure_gain_round_trip [OF ok] show ?thesis by blast
qed

subsection \<open>configure merges\<close>

lemma permitted_excludes:
  assumes "list_all (permitted opts) evs"
  shows "(opt_alsGain opts = None \<and> opt_proximityGain opts = None \<longrightarrow>
            list_all (\<lambda>ev. \<not> writesTo CONTROLONE ev) evs)"
    and "(opt_alsIntegrationCycles opts = None \<longrightarrow> list_all (\<lambda>ev. \<not> writesTo ATIME ev) evs)"
    and "(opt_alsThresholdLow opts = None \<longrightarrow> list_all (\<lambda>ev. \<not> writesTo AILTL ev) evs)"
    and "(opt_alsThresholdHigh opts = None \<longrightarrow> list_all (\<lambda>ev. \<not> writesTo AIHTL ev) evs)"
    and "(opt_alsThresholdPersistence opts = None \<and> opt_proximityThresholdPersistence opts = None \<longrightarrow>
            list_all (\<lambda>ev. \<not> writesTo PERS ev) evs)"
    and "(opt_on opts = None \<and> opt_enableALS opts = None \<and> opt_alsThresholdLow opts = None
            \<and> opt_alsThresholdHigh opts = None \<longrightarrow> list_all (\<lambda>ev. \<not> writesTo ENABLE ev) evs)"
    and "(opt_alsThresholdLow opts = None \<and> opt_alsThresholdHigh opts = None \<longrightarrow>
            list_all (\<lambda>ev. ev \<noteq> ReadUint8 0xE7) evs)"
  using assms
  by (auto simp: list_all_iff permitted_def writesTo_def Register_defs split: event.splits)

text \<open>
  C6: for every call of configure, whatever its outcome, each recognised option that is
  absent keeps its stored value in the mirror, and the call issues no write to a register
  none of whose controlling options is present: CONTROLONE needs a gain, ATIME the
  integration cycles, AILTL and AIHTL their threshold, PERS a persistence, ENABLE one of
  on, enableALS and the two thresholds. The transactions of a call are appended to those
  already on the bus.
\<close>

theorem configure_merges:
  assumes "configure opts s = (r, s')"
  shows
    "(opt_enableALS opts = None \<longrightarrow>
        AEN (enabled (configuration s')) = AEN (enabled (configuration s)))
   \<and> (opt_on opts = None \<longrightarrow>
        PON (enabled (configuration s')) = PON (enabled (configuration s)))
   \<and> (opt_alsIntegrationCycles opts = None \<longrightarrow>
        alsIntegrationCycles (configuration s') = alsIntegrationCycles (configuration s)
        \<and> maxCount s' = maxCount s)
   \<and> (opt_alsGain opts = None \<longrightarrow> alsGain (configuration s') = alsGain (configuration s))
   \<and> (opt_proximityGain opts = None \<longrightarrow>
        proximityGain (configuration s') = proximityGain (configuration s))
   \<and> (opt_alsThresholdLow opts = None \<longrightarrow>
        alsThresholdLow (configuration s') = alsThresholdLow (configuration s))
   \<and> (opt_alsThresholdHigh opts = None \<longrightarrow>
        alsThresholdHigh (configuration s') = alsThresholdHigh (configuration s))
   \<and> (opt_alsThresholdPersistence opts = None \<longrightarrow>
        alsThresholdPersistence (configuration s') = alsThresholdPersistence (configuration s))
   \<and> (opt_proximityThresholdPersistence opts = None \<longrightarrow>
        proximityThresholdPersistence (configuration s')
          = proximityThresholdPersistence (configuration s))
   \<and> transactions (bus s') = transactions (bus s) @ issued s s'
   \<and> (opt_alsGain opts = None \<and> opt_proximityGain opts = None \<longrightarrow>
        list_all (\<lambda>ev. \<not> writesTo CONTROLONE ev) (issued s s'))
   \<and> (opt_alsIntegrationCycles opts = None \<longrightarrow>
        list_all (\<lambda>ev. \<not> writesTo ATIME ev) (issued s s'))
   \<and> (opt_alsThresholdLow opts = None \<longrightarrow>
        list_all (\<lambda>ev. \<not> writesTo AILTL ev) (issued s s'))
   \<and> (opt_alsThresholdHigh opts = None \<longrightarrow>
        list_all (\<lambda>ev. \<not> writesTo AIHTL ev) (issued s s'))
   \<and> (opt_alsThresholdPersistence opts = None \<and> opt_proximityThresholdPersistence opts = None \<longrightarrow>
        list_all (\<lambda>ev. \<not> writesTo PERS ev) (issued s s'))
   \<and> (opt_on opts = None \<and> opt_enableALS opts = None \<and> opt_alsThresholdLow opts = None
        \<and> opt_alsThresholdHigh opts = None \<longrightarrow>
        list_all (\<lambda>ev. \<not> writesTo ENABLE ev) (issued s s'))
   \<and> (opt_alsThresholdLow opts = None \<and> opt_alsThresholdHigh opts = None \<longrightarrow>
        list_all (\<lambda>ev. ev \<noteq> ReadUint8 0xE7) (issued s s'))"
proof -
  from assms have s': "s' = snd (configure opts s)" by simp
  have m: "mirror_kept opts s s'"
    unfolding s' by (rule configure_mirror_kept)
  have "emits (permitted opts) s s'"
    unfolding s' by (rule configure_emits_permitted)
  then have t: "transactions (bus s') = transactions (bus s) @ issued s s'"
    and p: "list_all (permitted opts) (issued s s')"
    by (simp_all add: emits_issued)
  from m have mirror:
    "(opt_enableALS opts = None \<longrightarrow>
        AEN (enabled (configuration s')) = AEN (enabled (configuration s)))
   \<and> (opt_on opts = None \<longrightarrow>
        PON (enabled (configuration s')) = PON (enabled (configuration s)))
   \<and> (opt_alsIntegrationCycles opts = None \<longrightarrow>
        alsIntegrationCycles (configuration s') = alsIntegrationCycles (configuration s)
        \<and> maxCount s' = maxCount s)
   \<and> (opt_alsGain opts = None \<longrightarrow> alsGain (configuration s') = alsGain (configuration s))
   \<and> (opt_proximityGain opts = None \<longrightarrow>
        proximityGain (configuration s') = proximityGain (configuration s))
   \<and> (opt_alsThresholdLow opts = None \<longrightarrow>
        alsThresholdLow (configuration s') = alsThresholdLow (configuration s))
   \<and> (opt_alsThresholdHigh opts = None \<longrightarrow>
        alsThresholdHigh (configuration s') = alsThresholdHigh (configuration s))
   \<and> (opt_alsThresholdPersistence opts = None \<longrightarrow>
        alsThresholdPersistence (configuration s') = alsThresholdPersistence (configuration s))
   \<and> (opt_proximityThresholdPersistence opts = None \<longrightarrow>
        proximityThresholdPersistence (configuration s')
          = proximityThresholdPersistence (configuration s))"
    by (simp add: mirror_kept_def Let_def)
  from mirror t permitted_excludes [OF p] show ?thesis
    by (intro conjI) blast+
qed

theorem configure_merges_witness:
  "configure both_gains (ready dusk) = (Inr (), snd (configure both_gains (ready dusk)))
   \<and> AEN (enabled (configuration (snd (configure both_gains (ready dusk))))) = True
   \<and> PON (enabled (configuration (snd (configure both_gains (ready dusk))))) = True
   \<and> alsIntegrationCycles (configuration (snd (configure both_gains (ready dusk)))) = 10
   \<and> maxCount (snd (configure both_gains (ready dusk))) = 10250
   \<and> alsThresholdLow (configuration (snd (configure both_gains (ready dusk)))) = Some 0
   \<and> alsThresholdHigh (configuration (snd (configure both_gains (ready dusk)))) = Some 65535
   \<and> alsThresholdPersistence (configuration (snd (configure both_gains (ready dusk)))) = Some 1
   \<and> proximityThresholdPersistence (configuration (snd (configure both_gains (ready dusk)))) = Some 1
   \<and> list_all (\<lambda>ev. \<not> writesTo ATIME ev) (issued (ready dusk) (snd (configure both_gains (ready dusk))))
   \<and> list_all (\<lambda>ev. \<not> writesTo AILTL ev) (issued (ready dusk) (snd (configure both_gains (ready dusk))))
   \<and> list_all (\<lambda>ev. \<not> writesTo AIHTL ev) (issued (ready dusk) (snd (configure both_gains (ready dusk))))
   \<and> list_all (\<lambda>ev. \<not> writesTo PERS ev) (issued (ready dusk) (snd (configure both_gains (ready dusk))))
   \<and> list_all (\<lambda>ev. \<not> writesTo ENABLE ev) (issued (ready dusk) (snd (configure both_gains (ready dusk))))"
proof -
  have ok: "configure both_gains (ready dusk) = (Inr (), snd (configure both_gains (ready dusk)))"
    by (simp add: both_gains_def ready_def run_defs)
  have absent: "opt_enableALS both_gains = None" "opt_on both_gains = None"
    "opt_alsIntegrationCycles both_gains = None" "opt_alsThresholdLow both_gains = None"
    "opt_alsThresholdHigh both_gains = None" "opt_alsThresholdPersistence both_gains = None"
    "opt_proximityThresholdPersistence both_gains = None"
    by (simp_all add: both_gains_def no_options_def)
  have before: "AEN (enabled (configuration (ready dusk))) = True"
    "PON (enabled (configuration (ready dusk))) = True"
    "alsIntegrationCycles (configuration (ready dusk)) = 10"
    "maxCount (ready dusk) = 10250"
    "alsThresholdLow (configuration (ready dusk)) = Some 0"
    "alsThresholdHigh (configuration (ready dusk)) = Some 65535"
    "alsThresholdPersistence (configuration (ready dusk)) = Some 1"
    "proximityThresholdPersistence (configuration (ready dusk)) = Some 1"
    by (simp_all add: ready_def)
  from configure_merges [OF ok] absent before ok show ?thesis
    by simp
qed

subsection \<open>Persistence encoding\<close>

lemma take_bit_sint_32: "n \<le> 32 \<Longrightarrow> take_bit n (sint (w :: 32 word)) = take_bit n (uint w)"
  by (simp add: sint_uint take_bit_signed_take_bit)

lemma low_nibble_packed:
  assumes "0 \<le> a" "a \<le> 15"
  shows "js_or (js_shl q 4) a AND 15 = a"
proof -
  have a: "take_bit 4 a = a"
    using assms by (simp add: take_bit_int_eq_self)
  have m: "(15::int) = mask 4" by (simp add: mask_eq_exp_minus_1)
  have "js_or (js_shl q 4) a AND 15 = take_bit 4 (js_or (js_shl q 4) a)"
    unfolding m by (simp only: take_bit_eq_mask)
  also have "\<dots> = take_bit 4 (uint ((push_bit 4 (word_of_int q :: 32 word)) OR word_of_int a))"
    unfolding js_or_def js_shl_def
    by (simp add: take_bit_sint_32)
  also have "\<dots> = take_bit 4 a"
    by (rule bit_eqI) (auto simp: bit_simps)
  finally show ?thesis using a by simp
qed

lemma apersFromCycles_low: "0 \<le> p \<Longrightarrow> p \<le> 3 \<Longrightarrow> apersFromCycles p = Some p"
  by (simp add: apersFromCycles_def)

lemma apersFromCycles_fives:
  "5 \<le> p \<Longrightarrow> p \<le> 60 \<Longrightarrow> p mod 5 = 0 \<Longrightarrow> apersFromCycles p = Some (p div 5 + 3)"
  by (simp add: apersFromCycles_def)

lemma apersFromCycles_None:
  "apersFromCycles p = None \<longleftrightarrow> \<not> (0 \<le> p \<and> p \<le> 3) \<and> \<not> (5 \<le> p \<and> p \<le> 60 \<and> p mod 5 = 0)"
  by (auto simp: apersFromCycles_def)

lemma apersFromCycles_nibble: "apersFromCycles p = Some a \<Longrightarrow> 0 \<le> a \<and> a \<le> 15"
  by (auto simp: apersFromCycles_def split: if_splits)

lemma andThen_throws_first:
  "\<exists>e. fst (f s) = Inl e \<Longrightarrow> \<exists>e. fst (andThen f g s) = Inl e"
  by (auto simp: andThen_def split: prod.splits sum.splits)

lemma andThen_throws_second:
  "(\<And>s. \<exists>e. fst (g s) = Inl e) \<Longrightarrow> \<exists>e. fst (andThen f g s) = Inl e"
  by (auto simp: andThen_def split: prod.splits sum.splits)

lemma configure_persistence_rejects:
  assumes "opt_alsThresholdPersistence opts = Some p" "apersFromCycles p = None"
  shows "configure_persistence opts s = (Inl (RangeError ''invalid alsThresholdPersistence''), s)"
  using assms by (simp add: configure_persistence_def)

lemma configure_throws_on_bad_persistence:
  assumes "opt_alsThresholdPersistence opts = Some p" "apersFromCycles p = None"
  shows "\<exists>e. fst (configure opts s) = Inl e"
  unfolding configure_def
  by (intro andThen_throws_second andThen_throws_first)
     (simp add: configure_persistence_rejects [OF assms])

lemma emits_persistence_code:
  assumes "opt_alsThresholdPersistence opts = Some p" "apersFromCycles p = Some a"
  shows "emits (\<lambda>ev. \<forall>v. ev = WriteUint8 PERS v \<longrightarrow> v AND 15 = a) s
           (snd (configure_persistence opts s))"
  using assms apersFromCycles_nibble [OF assms(2)]
  by (auto simp: configure_persistence_def Let_def emits_def snd_io low_nibble_packed
       split: option.splits)


lemma configure_persistence_code:
  assumes "opt_alsThresholdPersistence opts = Some p" "apersFromCycles p = Some a"
  shows "list_all (\<lambda>ev. \<forall>v. ev = WriteUint8 PERS v \<longrightarrow> v AND 15 = a)
           (issued s (snd (configure opts s)))"
proof -
  let ?Q = "\<lambda>ev. \<forall>v. ev = WriteUint8 PERS v \<longrightarrow> v AND 15 = a"
  have "emits ?Q s (snd (configure opts s))"
  proof (rule configure_rel [where R = "emits ?Q"])
    show "emits ?Q s (snd (configure_persistence opts s))" for s
      by (rule emits_persistence_code [OF assms])
    show "emits ?Q s (snd (configure_gain opts s))" for s
      by (rule emits_configure_gain) (simp add: Register_defs)
    show "emits ?Q s (snd (configure_integration opts s))" for s
      by (rule emits_configure_integration) (simp add: Register_defs)
    show "emits ?Q s (snd (configure_thresholdLow opts s))" for s
      by (rule emits_configure_thresholdLow) simp
    show "emits ?Q s (snd (configure_thresholdHigh opts s))" for s
      by (rule emits_configure_thresholdHigh) simp
    show "emits ?Q s (snd (configure_interrupt opts s))" for s
      by (rule emits_configure_interrupt) simp
    show "emits ?Q s (snd (configure_enable opts s))" for s
      by (rule emits_configure_enable) (simp add: Register_defs)
  qed (auto intro: emits_trans emits_configure_switches)
  then show ?thesis by (simp add: emits_issued)
qed

lemma configure_bad_persistence_no_write:
  assumes "opt_alsThresholdPersistence opts = Some p" "apersFromCycles p = None"
  shows "list_all (\<lambda>ev. \<not> writesTo PERS ev) (issued s (snd (configure opts s)))"
proof -
  let ?Q = "\<lambda>ev. \<not> writesTo PERS ev"
  have "emits ?Q s (snd (configure opts s))"
  proof (rule configure_rel [where R = "emits ?Q"])
    show "emits ?Q s (snd (configure_persistence opts s))" for s
      by (simp add: configure_persistence_rejects [OF assms] emits_refl)
    show "emits ?Q s (snd (configure_gain opts s))" for s
      by (rule emits_configure_gain) (simp add: Register_defs writesTo_def)
    show "emits ?Q s (snd (configure_integration opts s))" for s
      by (rule emits_configure_integration) (simp add: Register_defs writesTo_def)
    show "emits ?Q s (snd (configure_thresholdLow opts s))" for s
      by (rule emits_configure_thresholdLow) (simp add: Register_defs writesTo_def)
    show "emits ?Q s (snd (configure_thresholdHigh opts s))" for s
      by (rule emits_configure_thresholdHigh) (simp add: Register_defs writesTo_def)
    show "emits ?Q s (snd (configure_interrupt opts s))" for s
      by (rule emits_configure_interrupt) (simp add: writesTo_def)
    show "emits ?Q s (snd (configure_enable opts s))" for s
      by (rule emits_configure_enable) (simp add: Register_defs writesTo_def)
  qed (auto intro: emits_trans emits_configure_switches)
  then show ?thesis by (simp add: emits_issued)
qed

lemma configure_only_persistence_rejected:
  assumes "apersFromCycles p = None"
  shows "configure (only_persistence p) s
           = (Inl (RangeError ''invalid alsThresholdPersistence''), s)"
  using assms
  by (simp add: only_persistence_def no_options_def configure_def andThen_def stage_defs Let_def)

lemma configure_only_persistence_accepted:
  assumes "apersFromCycles p = Some a"
    and "io s"
    and "\<not> faults (bus s) (transactions (bus s) @
            [WriteUint8 PERS (js_or (js_shl (orZero (proximityThresholdPersistence (configuration s))) 4) a)])"
  shows "fst (configure (only_persistence p) s) = Inr ()
       \<and> issued s (snd (configure (only_persistence p) s)) =
            [WriteUint8 PERS (js_or (js_shl (orZero (proximityThresholdPersistence (configuration s))) 4) a)]
       \<and> alsThresholdPersistence (configuration (snd (configure (only_persistence p) s))) = Some p"
  using assms
  by (simp add: only_persistence_def no_options_def configure_def andThen_def stage_defs Let_def
        io_defs issued_def)


lemma before_persistence_no_PERS:
  "emits (\<lambda>ev. \<not> writesTo PERS ev) s (snd (before_persistence opts s))"
proof -
  let ?Q = "\<lambda>ev. \<not> writesTo PERS ev"
  note tr = emits_trans [of ?Q]
  have g: "emits ?Q s (snd (configure_gain opts s))" for s
    by (rule emits_configure_gain) (simp add: Register_defs writesTo_def)
  have i: "emits ?Q s (snd (configure_integration opts s))" for s
    by (rule emits_configure_integration) (simp add: Register_defs writesTo_def)
  have l: "emits ?Q s (snd (configure_thresholdLow opts s))" for s
    by (rule emits_configure_thresholdLow) (simp add: Register_defs writesTo_def)
  have h: "emits ?Q s (snd (configure_thresholdHigh opts s))" for s
    by (rule emits_configure_thresholdHigh) (simp add: Register_defs writesTo_def)
  have 1: "emits ?Q s (snd (andThen (configure_thresholdLow opts) (configure_thresholdHigh opts) s))" for s
    using l h tr by (rule andThen_rel)
  have 2: "emits ?Q s (snd (andThen (configure_integration opts)
      (andThen (configure_thresholdLow opts) (configure_thresholdHigh opts)) s))" for s
    using i 1 tr by (rule andThen_rel)
  have 3: "emits ?Q s (snd (andThen (configure_gain opts) (andThen (configure_integration opts)
      (andThen (configure_thresholdLow opts) (configure_thresholdHigh opts))) s))" for s
    using g 2 tr by (rule andThen_rel)
  from tr [OF emits_configure_switches [of ?Q s opts] 3 [of "configure_switches opts s"]]
  show ?thesis by (simp add: before_persistence_def)
qed

lemma interrupt_and_enable_no_PERS:
  "emits (\<lambda>ev. \<not> writesTo PERS ev) s
     (snd (andThen (configure_interrupt opts) (configure_enable opts) s))"
proof -
  let ?Q = "\<lambda>ev. \<not> writesTo PERS ev"
  have a: "emits ?Q s (snd (configure_interrupt opts s))" for s
    by (rule emits_configure_interrupt) (simp add: writesTo_def)
  have e: "emits ?Q s (snd (configure_enable opts s))" for s
    by (rule emits_configure_enable) (simp add: Register_defs writesTo_def)
  show ?thesis using a e emits_trans [of ?Q] by (rule andThen_rel)
qed

lemma interrupt_and_enable_keep_persistence:
  "alsThresholdPersistence (configuration (snd (andThen (configure_interrupt opts) (configure_enable opts) s)))
     = alsThresholdPersistence (configuration s)
   \<and> proximityThresholdPersistence (configuration (snd (andThen (configure_interrupt opts) (configure_enable opts) s)))
     = proximityThresholdPersistence (configuration s)"
proof -
  let ?R = "\<lambda>a b. alsThresholdPersistence (configuration b) = alsThresholdPersistence (configuration a)
      \<and> proximityThresholdPersistence (configuration b) = proximityThresholdPersistence (configuration a)"
  have a: "?R s (snd (configure_interrupt opts s))" for s
    by (auto simp: configure_interrupt_def Let_def snd_io case_prod_beta split: sum.splits)
  have e: "?R s (snd (configure_enable opts s))" for s
    by (auto simp: configure_enable_def snd_io)
  have tr: "?R a b \<Longrightarrow> ?R b c \<Longrightarrow> ?R a c" for a b c by simp
  show ?thesis using a e tr by (rule andThen_rel)
qed

lemma configure_persistence_returns:
  assumes "configure_persistence opts s = (Inr (), s')"
    and "opt_alsThresholdPersistence opts = Some p" and "apersFromCycles p = Some a"
  shows "transactions (bus s') = transactions (bus s) @
           [WriteUint8 PERS
              (js_or (js_shl (orZero (proximityThresholdPersistence (configuration s'))) 4) a)]
       \<and> alsThresholdPersistence (configuration s') = Some p"
  using assms
  by (auto simp: configure_persistence_def io_defs Let_def split: option.splits if_splits)

lemma filter_one_write:
  assumes "list_all (\<lambda>ev. \<not> writesTo PERS ev) xs" "list_all (\<lambda>ev. \<not> writesTo PERS ev) ys"
  shows "filter (writesTo PERS) (xs @ [WriteUint8 PERS v] @ ys) = [WriteUint8 PERS v]"
  using assms by (simp add: list_all_iff writesTo_def filter_empty_conv)

lemma configure_returns_with_PERS_write:
  assumes "configure opts s = (Inr (), s')"
    and "opt_alsThresholdPersistence opts = Some p" and "apersFromCycles p = Some a"
  shows "filter (writesTo PERS) (issued s s') =
           [WriteUint8 PERS
              (js_or (js_shl (orZero (proximityThresholdPersistence (configuration s'))) 4) a)]
       \<and> alsThresholdPersistence (configuration s') = Some p"
proof -
  from assms(1) obtain s4 s5 where
    b: "before_persistence opts s = (Inr (), s4)"
    and p: "configure_persistence opts s4 = (Inr (), s5)"
    and t: "andThen (configure_interrupt opts) (configure_enable opts) s5 = (Inr (), s')"
    unfolding configure_split_persistence andThen_Inr by blast
  from before_persistence_no_PERS [of s opts] b obtain xs where
    xs: "transactions (bus s4) = transactions (bus s) @ xs" "list_all (\<lambda>ev. \<not> writesTo PERS ev) xs"
    by (auto simp: emits_def)
  from interrupt_and_enable_no_PERS [of s5 opts] t obtain ys where
    ys: "transactions (bus s') = transactions (bus s5) @ ys" "list_all (\<lambda>ev. \<not> writesTo PERS ev) ys"
    by (auto simp: emits_def)
  from interrupt_and_enable_keep_persistence [of opts s5] t
  have k: "alsThresholdPersistence (configuration s') = alsThresholdPersistence (configuration s5)"
    "proximityThresholdPersistence (configuration s') = proximityThresholdPersistence (configuration s5)"
    by simp_all
  note w = configure_persistence_returns [OF p assms(2,3)]
  let ?W = "WriteUint8 PERS
              (js_or (js_shl (orZero (proximityThresholdPersistence (configuration s'))) 4) a)"
  from xs ys w k have "issued s s' = xs @ [?W] @ ys"
    by (simp add: issued_def)
  with filter_one_write [OF xs(2) ys(2)] w k show ?thesis
    by simp
qed

lemma configure_bad_persistence_outcome:
  assumes "configure opts s = (r, s')"
    and "opt_alsThresholdPersistence opts = Some p" and "apersFromCycles p = None"
  shows "s' = snd (before_persistence opts s)
       \<and> (fst (before_persistence opts s) = Inr () \<longrightarrow>
            r = Inl (RangeError ''invalid alsThresholdPersistence''))
       \<and> (\<forall>e. fst (before_persistence opts s) = Inl e \<longrightarrow> r = Inl e)"
proof (cases "before_persistence opts s")
  case (Pair r4 s4)
  show ?thesis
  proof (cases r4)
    case (Inl e)
    with Pair assms(1) show ?thesis
      by (auto simp: configure_split_persistence andThen_def)
  next
    case (Inr u)
    with Pair assms(1) configure_persistence_rejects [OF assms(2,3), of s4] show ?thesis
      by (simp add: configure_split_persistence andThen_def)
  qed
qed


text \<open>
  C3, as amended: let \<open>p\<close> be the integer passed as alsThresholdPersistence, in a call
  with any other options. If \<open>p\<close> is 0, 1, 2 or 3 its encoding is \<open>p\<close>, and if \<open>p\<close>
  is a multiple of 5 from 5 to 60 its encoding is \<open>p / 5 + 3\<close>; in both cases every
  PERS write of the call carries the encoding in its low nibble, and a call that returns
  has issued exactly one PERS write, the stored proximity persistence shifted left by 4
  or-ed with the encoding, and has stored \<open>p\<close>. For every other \<open>p\<close> the call throws,
  writes nothing to PERS and ends in the state the blocks before the persistence block
  left: the error is the RangeError of alsThresholdPersistence when those blocks
  completed, and otherwise the error of the one that threw. When alsThresholdPersistence
  is the only option, those blocks complete and change nothing, so the rejected call
  throws the RangeError and leaves the state as it was, and the accepted call on an open
  driver issues exactly one transaction, the PERS write, and returns normally unless the
  transport faults on it.
\<close>

theorem alsThresholdPersistence_encoding:
  assumes "opt_alsThresholdPersistence opts = Some p" and "configure opts s = (r, s')"
  shows
    "(0 \<le> p \<and> p \<le> 3 \<longrightarrow>
        apersFromCycles p = Some p
        \<and> list_all (\<lambda>ev. \<forall>v. ev = WriteUint8 PERS v \<longrightarrow> v AND 15 = p) (issued s s')
        \<and> (r = Inr () \<longrightarrow>
             filter (writesTo PERS) (issued s s') =
               [WriteUint8 PERS
                  (js_or (js_shl (orZero (proximityThresholdPersistence (configuration s'))) 4) p)]
             \<and> alsThresholdPersistence (configuration s') = Some p))
   \<and> (5 \<le> p \<and> p \<le> 60 \<and> p mod 5 = 0 \<longrightarrow>
        apersFromCycles p = Some (p div 5 + 3)
        \<and> list_all (\<lambda>ev. \<forall>v. ev = WriteUint8 PERS v \<longrightarrow> v AND 15 = p div 5 + 3) (issued s s')
        \<and> (r = Inr () \<longrightarrow>
             filter (writesTo PERS) (issued s s') =
               [WriteUint8 PERS
                  (js_or (js_shl (orZero (proximityThresholdPersistence (configuration s'))) 4)
                     (p div 5 + 3))]
             \<and> alsThresholdPersistence (configuration s') = Some p))
   \<and> (\<not> (0 \<le> p \<and> p \<le> 3) \<and> \<not> (5 \<le> p \<and> p \<le> 60 \<and> p mod 5 = 0) \<longrightarrow>
        apersFromCycles p = None
        \<and> list_all (\<lambda>ev. \<not> writesTo PERS ev) (issued s s')
        \<and> s' = snd (before_persistence opts s)
        \<and> (fst (before_persistence opts s) = Inr () \<longrightarrow>
             r = Inl (RangeError ''invalid alsThresholdPersistence''))
        \<and> (\<forall>e. fst (before_persistence opts s) = Inl e \<longrightarrow> r = Inl e))
   \<and> (opts = only_persistence p \<longrightarrow>
        before_persistence opts s = (Inr (), s)
      \<and> (apersFromCycles p = None \<longrightarrow>
           r = Inl (RangeError ''invalid alsThresholdPersistence'') \<and> s' = s)
      \<and> (apersFromCycles p \<noteq> None \<and> io s \<longrightarrow>
           (\<exists>v. issued s s' = [WriteUint8 PERS v]
              \<and> (r = Inr () \<longleftrightarrow> \<not> faults (bus s) (transactions (bus s) @ [WriteUint8 PERS v])))))"
proof -
  from assms(2) have r: "r = fst (configure opts s)" and s': "s' = snd (configure opts s)"
    by simp_all
  have valid: "list_all (\<lambda>ev. \<forall>v. ev = WriteUint8 PERS v \<longrightarrow> v AND 15 = a) (issued s s')
        \<and> (r = Inr () \<longrightarrow>
             filter (writesTo PERS) (issued s s') =
               [WriteUint8 PERS
                  (js_or (js_shl (orZero (proximityThresholdPersistence (configuration s'))) 4) a)]
             \<and> alsThresholdPersistence (configuration s') = Some p)"
    if a: "apersFromCycles p = Some a" for a
  proof -
    have "list_all (\<lambda>ev. \<forall>v. ev = WriteUint8 PERS v \<longrightarrow> v AND 15 = a) (issued s s')"
      unfolding s' by (rule configure_persistence_code [OF assms(1) a])
    moreover have "filter (writesTo PERS) (issued s s') =
               [WriteUint8 PERS
                  (js_or (js_shl (orZero (proximityThresholdPersistence (configuration s'))) 4) a)]
             \<and> alsThresholdPersistence (configuration s') = Some p" if "r = Inr ()"
      using configure_returns_with_PERS_write [OF _ assms(1) a, of s s'] assms(2) that by simp
    ultimately show ?thesis by blast
  qed
  have low: "apersFromCycles p = Some p" if "0 \<le> p \<and> p \<le> 3"
    using that by (simp add: apersFromCycles_low)
  have fives: "apersFromCycles p = Some (p div 5 + 3)" if "5 \<le> p \<and> p \<le> 60 \<and> p mod 5 = 0"
    using that by (simp add: apersFromCycles_fives)
  have bad: "apersFromCycles p = None
        \<and> list_all (\<lambda>ev. \<not> writesTo PERS ev) (issued s s')
        \<and> s' = snd (before_persistence opts s)
        \<and> (fst (before_persistence opts s) = Inr () \<longrightarrow>
             r = Inl (RangeError ''invalid alsThresholdPersistence''))
        \<and> (\<forall>e. fst (before_persistence opts s) = Inl e \<longrightarrow> r = Inl e)"
    if "\<not> (0 \<le> p \<and> p \<le> 3) \<and> \<not> (5 \<le> p \<and> p \<le> 60 \<and> p mod 5 = 0)"
  proof -
    from that have none: "apersFromCycles p = None"
      by (simp add: apersFromCycles_None)
    from configure_bad_persistence_no_write [OF assms(1) none, of s]
      configure_bad_persistence_outcome [OF assms(2,1) none] none
    show ?thesis by (simp add: s')
  qed
  have alone: "before_persistence opts s = (Inr (), s)" if "opts = only_persistence p"
    using that
    by (simp add: only_persistence_def no_options_def before_persistence_def andThen_def
          stage_defs Let_def)
  have alone_bad: "r = Inl (RangeError ''invalid alsThresholdPersistence'') \<and> s' = s"
    if "opts = only_persistence p" "apersFromCycles p = None"
    using that assms(2) by (simp add: configure_only_persistence_rejected)
  have alone_good: "\<exists>v. issued s s' = [WriteUint8 PERS v]
        \<and> (r = Inr () \<longleftrightarrow> \<not> faults (bus s) (transactions (bus s) @ [WriteUint8 PERS v]))"
    if "opts = only_persistence p" "apersFromCycles p \<noteq> None \<and> io s"
    using that assms(2)
    by (auto simp: only_persistence_def no_options_def configure_def andThen_def stage_defs
          Let_def io_defs issued_def split: if_splits)
  from low valid [of p] have c1: "0 \<le> p \<and> p \<le> 3 \<longrightarrow>
        apersFromCycles p = Some p
        \<and> list_all (\<lambda>ev. \<forall>v. ev = WriteUint8 PERS v \<longrightarrow> v AND 15 = p) (issued s s')
        \<and> (r = Inr () \<longrightarrow>
             filter (writesTo PERS) (issued s s') =
               [WriteUint8 PERS
                  (js_or (js_shl (orZero (proximityThresholdPersistence (configuration s'))) 4) p)]
             \<and> alsThresholdPersistence (configuration s') = Some p)"
    by blast
  from fives valid [of "p div 5 + 3"] have c2: "5 \<le> p \<and> p \<le> 60 \<and> p mod 5 = 0 \<longrightarrow>
        apersFromCycles p = Some (p div 5 + 3)
        \<and> list_all (\<lambda>ev. \<forall>v. ev = WriteUint8 PERS v \<longrightarrow> v AND 15 = p div 5 + 3) (issued s s')
        \<and> (r = Inr () \<longrightarrow>
             filter (writesTo PERS) (issued s s') =
               [WriteUint8 PERS
                  (js_or (js_shl (orZero (proximityThresholdPersistence (configuration s'))) 4)
                     (p div 5 + 3))]
             \<and> alsThresholdPersistence (configuration s') = Some p)"
    by (intro impI conjI) simp_all
  from bad have c3: "\<not> (0 \<le> p \<and> p \<le> 3) \<and> \<not> (5 \<le> p \<and> p \<le> 60 \<and> p mod 5 = 0) \<longrightarrow>
        apersFromCycles p = None
        \<and> list_all (\<lambda>ev. \<not> writesTo PERS ev) (issued s s')
        \<and> s' = snd (before_persistence opts s)
        \<and> (fst (before_persistence opts s) = Inr () \<longrightarrow>
             r = Inl (RangeError ''invalid alsThresholdPersistence''))
        \<and> (\<forall>e. fst (before_persistence opts s) = Inl e \<longrightarrow> r = Inl e)"
    by (rule impI)
  have c4: "opts = only_persistence p \<longrightarrow>
        before_persistence opts s = (Inr (), s)
      \<and> (apersFromCycles p = None \<longrightarrow>
           r = Inl (RangeError ''invalid alsThresholdPersistence'') \<and> s' = s)
      \<and> (apersFromCycles p \<noteq> None \<and> io s \<longrightarrow>
           (\<exists>v. issued s s' = [WriteUint8 PERS v]
              \<and> (r = Inr () \<longleftrightarrow> \<not> faults (bus s) (transactions (bus s) @ [WriteUint8 PERS v]))))"
  proof (intro impI conjI)
    assume o: "opts = only_persistence p"
    show "before_persistence opts s = (Inr (), s)" by (rule alone [OF o])
    show "r = Inl (RangeError ''invalid alsThresholdPersistence'')" "s' = s"
      if "apersFromCycles p = None"
      using alone_bad [OF o that] by simp_all
    show "\<exists>v. issued s s' = [WriteUint8 PERS v]
        \<and> (r = Inr () \<longleftrightarrow> \<not> faults (bus s) (transactions (bus s) @ [WriteUint8 PERS v]))"
      if "apersFromCycles p \<noteq> None \<and> io s"
      by (rule alone_good [OF o that])
  qed
  show ?thesis
    by (rule conjI [OF c1 conjI [OF c2 conjI [OF c3 c4]]])
qed

theorem alsThresholdPersistence_encoding_witness:
  "opt_alsThresholdPersistence ((only_persistence 10)\<lparr>opt_proximityThresholdPersistence := Some 2\<rparr>) = Some 10
   \<and> configure ((only_persistence 10)\<lparr>opt_proximityThresholdPersistence := Some 2\<rparr>) (ready dusk)
       = (Inr (), snd (configure ((only_persistence 10)\<lparr>opt_proximityThresholdPersistence := Some 2\<rparr>) (ready dusk)))
   \<and> apersFromCycles 10 = Some 5
   \<and> filter (writesTo PERS)
        (issued (ready dusk)
           (snd (configure ((only_persistence 10)\<lparr>opt_proximityThresholdPersistence := Some 2\<rparr>) (ready dusk))))
       = [WriteUint8 PERS 37]
   \<and> alsThresholdPersistence (configuration
        (snd (configure ((only_persistence 10)\<lparr>opt_proximityThresholdPersistence := Some 2\<rparr>) (ready dusk))))
       = Some 10
   \<and> opt_alsThresholdPersistence (only_persistence 7) = Some 7
   \<and> configure (only_persistence 7) (ready dusk)
       = (Inl (RangeError ''invalid alsThresholdPersistence''), ready dusk)
   \<and> apersFromCycles 7 = None
   \<and> list_all (\<lambda>ev. \<not> writesTo PERS ev) (issued (ready dusk) (ready dusk))"
proof -
  let ?both = "(only_persistence 10)\<lparr>opt_proximityThresholdPersistence := Some 2\<rparr>"
  have o10: "opt_alsThresholdPersistence ?both = Some 10"
    and o7: "opt_alsThresholdPersistence (only_persistence 7) = Some 7"
    by (simp_all add: only_persistence_def)
  have c10: "configure ?both (ready dusk) = (Inr (), snd (configure ?both (ready dusk)))"
    by (simp add: only_persistence_def ready_def run_defs)
  have stored: "proximityThresholdPersistence (configuration (snd (configure ?both (ready dusk)))) = Some 2"
    by (simp add: only_persistence_def ready_def run_defs)
  have pack: "js_or (js_shl 2 4) 5 = 37"
    by (simp add: js_or_def js_shl_def)
  have c7: "configure (only_persistence 7) (ready dusk)
       = (Inl (RangeError ''invalid alsThresholdPersistence''), ready dusk)"
    by (simp add: only_persistence_def ready_def run_defs)
  from alsThresholdPersistence_encoding [OF o10 c10] stored pack
  have w10: "apersFromCycles 10 = Some 5
      \<and> filter (writesTo PERS) (issued (ready dusk) (snd (configure ?both (ready dusk))))
          = [WriteUint8 PERS 37]
      \<and> alsThresholdPersistence (configuration (snd (configure ?both (ready dusk)))) = Some 10"
    by (simp add: orZero_def)
  from alsThresholdPersistence_encoding [OF o7 c7]
  have w7: "apersFromCycles 7 = None
      \<and> list_all (\<lambda>ev. \<not> writesTo PERS ev) (issued (ready dusk) (ready dusk))"
    by simp
  from o10 c10 w10 o7 c7 w7 show ?thesis by blast
qed

text \<open>
  C3 as stated fails on a call in which an earlier block throws first: on the driver as
  constructed, \<open>configure({alsGain: 3, alsThresholdPersistence: 7})\<close> rejects 7 only
  in the sense that the call throws; the error is the plain Error of the gain block, not
  a RangeError.
\<close>

theorem invalid_gain_preempts_range_error:
  "opt_alsThresholdPersistence ((only_persistence 7)\<lparr>opt_alsGain := Some 3\<rparr>) = Some 7
   \<and> apersFromCycles 7 = None
   \<and> fst (configure ((only_persistence 7)\<lparr>opt_alsGain := Some 3\<rparr>) (ready dusk))
       = Inl (Error ''invalid alsGain setting'')"
  by (simp add: only_persistence_def ready_def run_defs)

subsection \<open>The ALS interrupt enable flag\<close>

lemma configure_interrupt_derives:
  assumes "configure_interrupt opts s = (r, s')"
    and "opt_alsThresholdLow opts \<noteq> None \<or> opt_alsThresholdHigh opts \<noteq> None"
  shows "AIEN (enabled (configuration s')) \<longleftrightarrow>
           \<not> (alsThresholdLow (configuration s') = Some 0
              \<and> alsThresholdHigh (configuration s') = Some 0xFFFF)"
proof -
  from assms(1) have "s' = snd (configure_interrupt opts s)" by simp
  with assms(2) show ?thesis
    by (auto simp: configure_interrupt_def Let_def snd_io case_prod_beta split: sum.splits)
qed

lemma configure_enable_configuration:
  "configure_enable opts s = (r, s') \<Longrightarrow> configuration s' = configuration s"
  by (auto simp: configure_enable_def io_defs Let_def split: if_splits)

lemma AIEN_kept_before_interrupt:
  "AIEN (enabled (configuration (snd (before_interrupt opts s))))
     = AIEN (enabled (configuration s))"
proof -
  let ?R = "\<lambda>a b. AIEN (enabled (configuration b)) = AIEN (enabled (configuration a))"
  have tr: "?R a b \<Longrightarrow> ?R b c \<Longrightarrow> ?R a c" for a b c by simp
  have sw: "?R s (configure_switches opts s)" for s
    by (simp add: configure_switches_def Let_def split: option.splits)
  have g: "?R s (snd (configure_gain opts s))" for s
    by (auto simp: configure_gain_def Let_def snd_io split: option.splits)
  have i: "?R s (snd (configure_integration opts s))" for s
    by (auto simp: configure_integration_def snd_io split: option.splits)
  have l: "?R s (snd (configure_thresholdLow opts s))" for s
    by (auto simp: configure_thresholdLow_def snd_io split: option.splits)
  have h: "?R s (snd (configure_thresholdHigh opts s))" for s
    by (auto simp: configure_thresholdHigh_def snd_io split: option.splits)
  have p: "?R s (snd (configure_persistence opts s))" for s
    by (auto simp: configure_persistence_def snd_io split: option.splits)
  have 1: "?R s (snd (andThen (configure_thresholdLow opts) (configure_thresholdHigh opts) s))" for s
    using l h tr by (rule andThen_rel)
  have 2: "?R s (snd (andThen (configure_integration opts)
      (andThen (configure_thresholdLow opts) (configure_thresholdHigh opts)) s))" for s
    using i 1 tr by (rule andThen_rel)
  have 3: "?R s (snd (andThen (configure_gain opts) (andThen (configure_integration opts)
      (andThen (configure_thresholdLow opts) (configure_thresholdHigh opts))) s))" for s
    using g 2 tr by (rule andThen_rel)
  have bp: "?R s (snd (before_persistence opts s))" for s
    unfolding before_persistence_def using sw [of s] 3 [of "configure_switches opts s"] by simp
  have "?R s (snd (andThen (before_persistence opts) (configure_persistence opts) s))"
    using bp p tr by (rule andThen_rel)
  then show ?thesis by (simp add: before_interrupt_def)
qed

lemma interrupt_and_enable_derive:
  assumes "andThen (configure_interrupt opts) (configure_enable opts) s = (r, s')"
    and "opt_alsThresholdLow opts \<noteq> None \<or> opt_alsThresholdHigh opts \<noteq> None"
  shows "AIEN (enabled (configuration s')) \<longleftrightarrow>
           \<not> (alsThresholdLow (configuration s') = Some 0
              \<and> alsThresholdHigh (configuration s') = Some 0xFFFF)"
proof (cases "configure_interrupt opts s")
  case (Pair r1 s1)
  note d = configure_interrupt_derives [OF Pair assms(2)]
  show ?thesis
  proof (cases r1)
    case (Inl e)
    with Pair assms(1) have "s' = s1" by (simp add: andThen_def)
    with d show ?thesis by simp
  next
    case (Inr u)
    with Pair assms(1) have "configure_enable opts s1 = (r, s')" by (simp add: andThen_def)
    from configure_enable_configuration [OF this] d show ?thesis by simp
  qed
qed

text \<open>
  C4, as amended: in every configure call that sets alsThresholdLow or alsThresholdHigh
  (or both) and in which none of the blocks before the derivation throws (gains,
  integration cycles, the two threshold bounds, persistence), the stored
  ALS-interrupt-enable flag AIEN is afterwards false if and only if the stored low
  threshold is 0 and the stored high threshold is 0xFFFF, and true for every other
  stored pair, whether the call then returns or throws at the interrupt-clear read or at
  the ENABLE write. Every call that returns is such a call. A call in which one of those
  earlier blocks throws ends with that block's error in the state that block left, and
  its AIEN is the one from before the call.
\<close>

theorem AIEN_derived_when_reached:
  assumes "configure opts s = (r, s')"
  shows
    "(fst (before_interrupt opts s) = Inr ()
        \<and> (opt_alsThresholdLow opts \<noteq> None \<or> opt_alsThresholdHigh opts \<noteq> None) \<longrightarrow>
        (AIEN (enabled (configuration s')) \<longleftrightarrow>
           \<not> (alsThresholdLow (configuration s') = Some 0
              \<and> alsThresholdHigh (configuration s') = Some 0xFFFF)))
   \<and> (r = Inr () \<longrightarrow> fst (before_interrupt opts s) = Inr ())
   \<and> (\<forall>e. fst (before_interrupt opts s) = Inl e \<longrightarrow>
        r = Inl e \<and> s' = snd (before_interrupt opts s)
        \<and> AIEN (enabled (configuration s')) = AIEN (enabled (configuration s)))"
proof (cases "before_interrupt opts s")
  case (Pair r5 s5)
  from assms have c: "andThen (before_interrupt opts)
       (andThen (configure_interrupt opts) (configure_enable opts)) s = (r, s')"
    by (simp add: configure_split_interrupt)
  show ?thesis
  proof (cases r5)
    case (Inl e)
    with Pair c have "r = Inl e" "s' = s5"
      by (simp_all add: andThen_def)
    with Pair Inl AIEN_kept_before_interrupt [of opts s] show ?thesis
      by simp
  next
    case (Inr u)
    with Pair c have "andThen (configure_interrupt opts) (configure_enable opts) s5 = (r, s')"
      by (simp add: andThen_def)
    from interrupt_and_enable_derive [OF this] Pair Inr show ?thesis
      by simp
  qed
qed

theorem AIEN_derived_when_reached_witness:
  "configure (thresholds (Some 5) None) (worn dusk)
     = (Inl TransportFault, snd (configure (thresholds (Some 5) None) (worn dusk)))
   \<and> fst (before_interrupt (thresholds (Some 5) None) (worn dusk)) = Inr ()
   \<and> opt_alsThresholdLow (thresholds (Some 5) None) = Some 5
   \<and> alsThresholdLow (configuration (snd (configure (thresholds (Some 5) None) (worn dusk)))) = Some 5
   \<and> alsThresholdHigh (configuration (snd (configure (thresholds (Some 5) None) (worn dusk)))) = Some 65535
   \<and> AIEN (enabled (configuration (snd (configure (thresholds (Some 5) None) (worn dusk)))))
   \<and> configure (thresholds (Some 5) (Some 70000)) (ready dusk)
     = (Inl (RangeError ''invalid thresholdHigh''),
        snd (before_interrupt (thresholds (Some 5) (Some 70000)) (ready dusk)))
   \<and> fst (before_interrupt (thresholds (Some 5) (Some 70000)) (ready dusk))
     = Inl (RangeError ''invalid thresholdHigh'')
   \<and> AIEN (enabled (configuration (snd (configure (thresholds (Some 5) (Some 70000)) (ready dusk)))))
     = AIEN (enabled (configuration (ready dusk)))"
proof -
  have c1: "configure (thresholds (Some 5) None) (worn dusk)
     = (Inl TransportFault, snd (configure (thresholds (Some 5) None) (worn dusk)))"
    by (simp add: thresholds_def worn_def worn_bus_def ready_def writesTo_def run_defs)
  have b1: "fst (before_interrupt (thresholds (Some 5) None) (worn dusk)) = Inr ()"
    by (simp add: before_interrupt_def before_persistence_def thresholds_def worn_def
          worn_bus_def ready_def writesTo_def run_defs)
  have o1: "opt_alsThresholdLow (thresholds (Some 5) None) = Some 5"
    by (simp add: thresholds_def)
  have st: "alsThresholdLow (configuration (snd (configure (thresholds (Some 5) None) (worn dusk)))) = Some 5"
    "alsThresholdHigh (configuration (snd (configure (thresholds (Some 5) None) (worn dusk)))) = Some 65535"
    by (simp_all add: thresholds_def worn_def worn_bus_def ready_def writesTo_def run_defs)
  have c2: "configure (thresholds (Some 5) (Some 70000)) (ready dusk)
     = (fst (configure (thresholds (Some 5) (Some 70000)) (ready dusk)),
        snd (configure (thresholds (Some 5) (Some 70000)) (ready dusk)))"
    by simp
  have b2: "fst (before_interrupt (thresholds (Some 5) (Some 70000)) (ready dusk))
     = Inl (RangeError ''invalid thresholdHigh'')"
    by (simp add: before_interrupt_def before_persistence_def thresholds_def ready_def run_defs)
  from AIEN_derived_when_reached [OF c1] b1 o1 st
  have w1: "AIEN (enabled (configuration (snd (configure (thresholds (Some 5) None) (worn dusk)))))"
    by simp
  from AIEN_derived_when_reached [OF c2] b2
  have w2: "fst (configure (thresholds (Some 5) (Some 70000)) (ready dusk))
        = Inl (RangeError ''invalid thresholdHigh'')
      \<and> snd (configure (thresholds (Some 5) (Some 70000)) (ready dusk))
        = snd (before_interrupt (thresholds (Some 5) (Some 70000)) (ready dusk))
      \<and> AIEN (enabled (configuration (snd (configure (thresholds (Some 5) (Some 70000)) (ready dusk)))))
        = AIEN (enabled (configuration (ready dusk)))"
    by blast
  then have c2': "configure (thresholds (Some 5) (Some 70000)) (ready dusk)
     = (Inl (RangeError ''invalid thresholdHigh''),
        snd (before_interrupt (thresholds (Some 5) (Some 70000)) (ready dusk)))"
    by (simp add: prod_eq_iff)
  from c1 b1 o1 st w1 w2 c2' b2 show ?thesis by blast
qed

text \<open>
  C4 as stated fails on a call that throws after it has stored a bound: on the driver as
  constructed, \<open>configure({alsThresholdLow: 5, alsThresholdHigh: 70000})\<close> stores the
  low threshold 5, throws on the high one, and never reaches the derivation, so the pair
  (5, 0xFFFF) is stored with AIEN still false.
\<close>

theorem AIEN_stale_after_throw:
  "fst (configure (thresholds (Some 5) (Some 70000)) (ready dusk))
     = Inl (RangeError ''invalid thresholdHigh'')
   \<and> alsThresholdLow (configuration (snd (configure (thresholds (Some 5) (Some 70000)) (ready dusk))))
       = Some 5
   \<and> alsThresholdHigh (configuration (snd (configure (thresholds (Some 5) (Some 70000)) (ready dusk))))
       = Some 65535
   \<and> \<not> AIEN (enabled (configuration (snd (configure (thresholds (Some 5) (Some 70000)) (ready dusk)))))"
  by (simp add: thresholds_def ready_def run_defs)

subsection \<open>The light meter reading\<close>

lemma map_upt_8: "map f [0..<8] = [f 0, f 1, f 2, f 3, f 4, f 5, f 6, f 7]"
proof -
  have "[0..<8] = [0, 1, 2, 3, 4, 5, 6, 7::nat]"
    by (simp add: upt_rec eval_nat_numeral)
  then show ?thesis by simp
qed

lemma js_div_nonzero: "m \<noteq> 0 \<Longrightarrow> js_div raw m = Quotient raw m"
  by (simp add: js_div_def)

lemma js_div_zero: "js_div raw 0 = (if raw = 0 then NaN else Infinity)"
  by (simp add: js_div_def)

text \<open>
  What sample does on an open, powered driver with ALS enabled when the status byte has
  bit 0 set and neither read faults: the status read, one burst read, and four channels,
  each the little-endian count at offsets 0, 2, 4 and 6 divided by \<open>#maxCount\<close>.
\<close>

lemma sample_reads_lightmeter:
  assumes "io s" and "PON (enabled (configuration s))" and "AEN (enabled (configuration s))"
    and "\<not> faults (bus s) (transactions (bus s) @ [ReadUint8 STATUS])"
    and "byte (bus s) (transactions (bus s) @ [ReadUint8 STATUS]) AND 0x01 \<noteq> 0"
    and "\<not> faults (bus s) (transactions (bus s) @ [ReadUint8 STATUS, ReadBuffer CDATAL 8])"
  shows "fst (sample s) = Inr (Object (Some
           \<lparr>clear = js_div (delivered s 0) (maxCount s),
            red = js_div (delivered s 2) (maxCount s),
            green = js_div (delivered s 4) (maxCount s),
            blue = js_div (delivered s 6) (maxCount s)\<rparr>))"
    and "issued s (snd (sample s)) = [ReadUint8 STATUS, ReadBuffer CDATAL 8]"
  using assms
  by (simp_all add: sample_def io_defs Let_def delivered_def getUint16_def map_upt_8 issued_def)

lemma in_unit_interval_js_div:
  "0 < m \<Longrightarrow> in_unit_interval (js_div raw m) \<longleftrightarrow> raw = 0 \<or> int raw \<le> m"
  by (simp add: js_div_def in_unit_interval_def)

text \<open>
  C5 says that the four channel values lie in [0, 1], as the comment above the division
  in sample does. On the driver as constructed, once
  \<open>configure({alsIntegrationCycles: 0})\<close> has returned, the ceiling is 0 and a sample
  with ALS enabled and the status bit set divides by it: every channel is \<open>Infinity\<close>
  for the nonzero counts of \<open>dusk\<close>, and \<open>NaN\<close> for the zero counts of \<open>dark\<close>.
\<close>

theorem sample_on_zero_ceiling:
  "fst (configure (only_cycles 0) (ready dusk)) = Inr ()
   \<and> PON (enabled (configuration (snd (configure (only_cycles 0) (ready dusk)))))
   \<and> AEN (enabled (configuration (snd (configure (only_cycles 0) (ready dusk)))))
   \<and> maxCount (snd (configure (only_cycles 0) (ready dusk))) = 0
   \<and> fst (sample (snd (configure (only_cycles 0) (ready dusk)))) = Inr (Object (Some
         \<lparr>clear = Infinity, red = Infinity, green = Infinity, blue = Infinity\<rparr>))
   \<and> \<not> in_unit_interval Infinity
   \<and> fst (sample (snd (configure (only_cycles 0) (ready dark)))) = Inr (Object (Some
         \<lparr>clear = NaN, red = NaN, green = NaN, blue = NaN\<rparr>))
   \<and> \<not> in_unit_interval NaN"
  by (simp add: only_cycles_def ready_def run_defs sample_def getUint16_def map_upt_8
        js_div_def in_unit_interval_def dusk_def dark_def)

subsection \<open>Invalid gains\<close>

lemma configure_invalid_gain:
  assumes "(\<exists>g. opt_alsGain opts = Some g \<and> alsGainField g = None)
         \<or> (\<exists>g. opt_proximityGain opts = Some g \<and> proximityGainField g = None)"
  shows "(fst (configure opts s) = Inl (Error ''invalid alsGain setting'')
          \<or> fst (configure opts s) = Inl (Error ''invalid proximityGain setting''))
       \<and> issued s (snd (configure opts s)) = []"
  using assms
  by (auto simp: configure_def andThen_def configure_gain_def configure_switches_def Let_def
        issued_def split: option.splits)

text \<open>
  C1 says that a call with an invalid gain throws, leaves the stored gains as they were
  and writes nothing to CONTROLONE. The call does throw and does not write (lemma
  \<open>configure_invalid_gain\<close>), but the gain is stored before it is checked: on the
  driver as constructed, \<open>configure({alsGain: 3})\<close> throws and leaves alsGain 3 in the
  mirror, where it was 1, and a later \<open>configure({proximityGain: 2})\<close> throws on the
  stored alsGain.
\<close>

theorem invalid_alsGain_is_stored:
  "fst (configure (gains (Some 3) None) (ready dusk)) = Inl (Error ''invalid alsGain setting'')
   \<and> issued (ready dusk) (snd (configure (gains (Some 3) None) (ready dusk))) = []
   \<and> alsGain (configuration (ready dusk)) = 1
   \<and> alsGain (configuration (snd (configure (gains (Some 3) None) (ready dusk)))) = 3
   \<and> fst (configure (gains None (Some 2)) (snd (configure (gains (Some 3) None) (ready dusk))))
       = Inl (Error ''invalid alsGain setting'')"
  by (simp add: gains_def ready_def issued_def run_defs)

subsection \<open>Integration cycles\<close>

lemma configure_cycles_accepted:
  assumes "0 \<le> c" "c \<le> 256" "io s"
    and "\<not> faults (bus s) (transactions (bus s) @ [WriteUint8 ATIME (256 - c)])"
  shows "fst (configure (only_cycles c) s) = Inr ()
       \<and> issued s (snd (configure (only_cycles c) s)) = [WriteUint8 ATIME (256 - c)]
       \<and> alsIntegrationCycles (configuration (snd (configure (only_cycles c) s))) = c
       \<and> maxCount (snd (configure (only_cycles c) s)) = 1025 * c"
  using assms
  by (simp add: only_cycles_def no_options_def configure_def andThen_def stage_defs Let_def
        io_defs issued_def)

lemma configure_cycles_rejected:
  assumes "c < 0 \<or> 256 < c"
  shows "configure (only_cycles c) s = (Inl (Error ''invalid alsIntegrationCycles setting''), s)"
  using assms
  by (auto simp: only_cycles_def no_options_def configure_def andThen_def stage_defs Let_def)

text \<open>
  C2 says that every \<open>c\<close> outside 1..256 is rejected. The guard of the source is
  \<open>c > 256 || c < 0\<close>, so 0 is accepted: on the driver as constructed,
  \<open>configure({alsIntegrationCycles: 0})\<close> returns normally, writes 256 to ATIME and sets
  the ceiling to 0, after which sample divides by zero. For \<open>c\<close> from 1 to 256, and for
  \<open>c\<close> below 0 or above 256, the code does what C2 says (the two lemmas above).
\<close>

theorem zero_integration_cycles_accepted:
  "fst (configure (only_cycles 0) (ready glare)) = Inr ()
   \<and> issued (ready glare) (snd (configure (only_cycles 0) (ready glare))) = [WriteUint8 ATIME 256]
   \<and> alsIntegrationCycles (configuration (snd (configure (only_cycles 0) (ready glare)))) = 0
   \<and> maxCount (snd (configure (only_cycles 0) (ready glare))) = 0
   \<and> fst (sample (snd (configure (only_cycles 0) (ready glare)))) = Inr (Object (Some
         \<lparr>clear = Infinity, red = Infinity, green = Infinity, blue = Infinity\<rparr>))"
  by (simp add: only_cycles_def ready_def issued_def run_defs sample_def getUint16_def map_upt_8
        js_div_def glare_def)

end
